theory Spec2Isabelle
  imports Complex_Main "HOL-Library.AList" "HOL-Library.Multiset"
begin

section \<open>Parameters of the strategy\<close>

text \<open>
  The strategy class \<open>SemiconductorRegimeLongShort\<close> of \<open>strategy.py\<close> keeps its
  parameters and the symbols it subscribes to as attributes set once by \<open>Initialize\<close>.
  They are collected in one record. Python floats are modelled by real numbers: rounding,
  overflow and the sign of zero are not represented. Python integers are \<open>int\<close>; window
  lengths, which pandas uses as counts, are \<open>nat\<close>.
\<close>

type_synonym symbol = string

record config =
  mom_lookback :: nat
  vol_score_window :: nat
  vol_target_window :: nat
  regime_ma :: nat
  target_annual_vol :: real
  max_gross :: real
  min_gross :: real
  min_names_each_side :: int
  max_weight_per_name :: real
  gross_bull :: real
  gross_mixed :: real
  gross_neutral :: real
  gross_bear :: real
  soxx :: symbol
  spy :: symbol
  ief :: symbol
  shy :: symbol
  semis :: "symbol list"

definition Initialize :: config where
  "Initialize =
     \<lparr> mom_lookback = 126,
       vol_score_window = 60,
       vol_target_window = 20,
       regime_ma = 200,
       target_annual_vol = 10 / 100,
       max_gross = 130 / 100,
       min_gross = 20 / 100,
       min_names_each_side = 4,
       max_weight_per_name = 12 / 100,
       gross_bull = 110 / 100,
       gross_mixed = 1,
       gross_neutral = 80 / 100,
       gross_bear = 90 / 100,
       soxx = ''SOXX'',
       spy = ''SPY'',
       ief = ''IEF'',
       shy = ''SHY'',
       semis = [''NVDA'', ''AMD'', ''AVGO'', ''QCOM'', ''TXN'', ''INTC'', ''MU'', ''ADI'',
                ''ON'', ''MCHP'', ''NXPI'', ''MRVL'', ''KLAC'', ''LRCX'', ''AMAT'', ''TER''] \<rparr>"

section \<open>Floating-point values\<close>

text \<open>
  A pandas cell is a float that can be NaN or an infinity: a price of zero makes a ratio
  infinite, a result beyond the largest double overflows to an infinity, and pandas treats
  NaN as a missing observation. Finite floats are modelled by reals; a result of an
  operation whose magnitude exceeds \<open>float_max\<close>, the largest double, is the infinity of
  its sign. The arithmetic follows IEEE 754 on the special values, with zero taken as
  positive. Rounding inside the range is not represented.
\<close>

datatype flt = Fin real | PInf | NInf | NaN

datatype py_error = IndexError | KeyError | ZeroDivisionError

fun is_fin :: "flt \<Rightarrow> bool" where
  "is_fin (Fin a) = True"
| "is_fin _ = False"

fun inf_sign :: "flt \<Rightarrow> real" where
  "inf_sign PInf = 1"
| "inf_sign NInf = - 1"
| "inf_sign _ = 0"

definition inf_of :: "real \<Rightarrow> flt" where
  "inf_of s = (if 0 < s then PInf else if s < 0 then NInf else NaN)"

definition float_max :: real where
  "float_max = (2 - 1 / 2 ^ 52) * 2 ^ 1023"

definition to_float :: "real \<Rightarrow> flt" where
  "to_float x = (if float_max < x then PInf else if x < - float_max then NInf else Fin x)"

fun fneg :: "flt \<Rightarrow> flt" where
  "fneg (Fin a) = Fin (- a)"
| "fneg PInf = NInf"
| "fneg NInf = PInf"
| "fneg NaN = NaN"

fun fadd :: "flt \<Rightarrow> flt \<Rightarrow> flt" where
  "fadd NaN y = NaN"
| "fadd x NaN = NaN"
| "fadd (Fin a) (Fin b) = to_float (a + b)"
| "fadd (Fin a) y = y"
| "fadd x (Fin b) = x"
| "fadd x y = (if x = y then x else NaN)"

definition fsub :: "flt \<Rightarrow> flt \<Rightarrow> flt" where
  "fsub x y = fadd x (fneg y)"

fun fmul :: "flt \<Rightarrow> flt \<Rightarrow> flt" where
  "fmul NaN y = NaN"
| "fmul x NaN = NaN"
| "fmul (Fin a) (Fin b) = to_float (a * b)"
| "fmul (Fin a) y = inf_of (a * inf_sign y)"
| "fmul x (Fin b) = inf_of (inf_sign x * b)"
| "fmul x y = inf_of (inf_sign x * inf_sign y)"

fun fdiv :: "flt \<Rightarrow> flt \<Rightarrow> flt" where
  "fdiv NaN y = NaN"
| "fdiv x NaN = NaN"
| "fdiv (Fin a) (Fin b) = (if b = 0 then inf_of a else to_float (a / b))"
| "fdiv (Fin a) y = Fin 0"
| "fdiv x (Fin b) = (if b < 0 then fneg x else x)"
| "fdiv x y = NaN"

fun fsqrt :: "flt \<Rightarrow> flt" where
  "fsqrt (Fin a) = (if a < 0 then NaN else Fin (sqrt a))"
| "fsqrt PInf = PInf"
| "fsqrt x = NaN"

text \<open>\<open>x > y\<close> on floats: false as soon as one side is NaN.\<close>

fun fgt :: "flt \<Rightarrow> flt \<Rightarrow> bool" where
  "fgt NaN y = False"
| "fgt x NaN = False"
| "fgt (Fin a) (Fin b) = (b < a)"
| "fgt PInf y = (y \<noteq> PInf)"
| "fgt x NInf = (x \<noteq> NInf)"
| "fgt x y = False"

definition flt_less :: "flt \<Rightarrow> flt \<Rightarrow> bool" where
  "flt_less x y = fgt y x"

text \<open>
  \<open>np.clip(x, lo, hi)\<close> is \<open>minimum(maximum(x, lo), hi)\<close>; when \<open>lo > hi\<close> the result
  is \<open>hi\<close>.
\<close>

definition clip :: "real \<Rightarrow> real \<Rightarrow> real \<Rightarrow> real" where
  "clip x lo hi = min (max x lo) hi"

definition bind_err :: "py_error + 'a \<Rightarrow> ('a \<Rightarrow> py_error + 'b) \<Rightarrow> py_error + 'b" where
  "bind_err m f = (case m of Inl e \<Rightarrow> Inl e | Inr x \<Rightarrow> f x)"

section \<open>Series and rolling statistics\<close>

text \<open>
  A pandas Series of floats is a list; \<open>.iloc[-1]\<close> raises IndexError on an empty one.
\<close>

definition iloc_last :: "'a list \<Rightarrow> py_error + 'a" where
  "iloc_last xs = (if xs = [] then Inl IndexError else Inr (last xs))"

fun ffill_from :: "flt \<Rightarrow> flt list \<Rightarrow> flt list" where
  "ffill_from prev [] = []"
| "ffill_from prev (x # xs) =
     (if x = NaN then prev # ffill_from prev xs else x # ffill_from x xs)"

definition ffill :: "flt list \<Rightarrow> flt list" where
  "ffill xs = ffill_from NaN xs"

definition bfill :: "flt list \<Rightarrow> flt list" where
  "bfill xs = rev (ffill (rev xs))"

text \<open>
  \<open>pct_change(periods)\<close> pads missing values forward (pandas' default
  \<open>fill_method='pad'\<close>) and returns \<open>x[i] / x[i - periods] - 1\<close>, NaN on the first
  \<open>periods\<close> rows.
\<close>

definition pct_change :: "nat \<Rightarrow> flt list \<Rightarrow> flt list" where
  "pct_change periods xs =
     (let ys = ffill xs
      in map (\<lambda>i. if i < periods then NaN
                   else fsub (fdiv (ys ! i) (ys ! (i - periods))) (Fin 1))
             [0..<length ys])"

text \<open>
  \<open>rolling(w)\<close> has \<open>min_periods = w\<close> and turns infinities into NaN before it
  aggregates: a window gives a value other than NaN only when it holds \<open>w\<close> finite
  observations. The aggregate itself can overflow: the sum of a rolling mean, and the sum
  of squared deviations of a rolling standard deviation, which is then \<open>+inf\<close>.
\<close>

fun finite_values :: "flt list \<Rightarrow> real list option" where
  "finite_values [] = Some []"
| "finite_values (Fin a # xs) = map_option (Cons a) (finite_values xs)"
| "finite_values (x # xs) = None"

definition finite_window :: "nat \<Rightarrow> flt list \<Rightarrow> real list option" where
  "finite_window w xs =
     (if length xs < w then None else finite_values (drop (length xs - w) xs))"

definition mean_of :: "real list \<Rightarrow> flt" where
  "mean_of vs =
     (if vs = [] then NaN else fdiv (to_float (sum_list vs)) (Fin (real (length vs))))"

text \<open>The sample standard deviation (\<open>ddof = 1\<close>).\<close>

definition std_of :: "real list \<Rightarrow> flt" where
  "std_of vs =
     (if length vs \<le> 1 then NaN
      else let m = sum_list vs / real (length vs);
               ssqdm = sum_list (map (\<lambda>v. (v - m)\<^sup>2) vs)
           in if float_max < ssqdm then PInf
              else Fin (sqrt (ssqdm / real (length vs - 1))))"

definition rolling :: "nat \<Rightarrow> (real list \<Rightarrow> flt) \<Rightarrow> flt list \<Rightarrow> flt list" where
  "rolling w agg xs =
     map (\<lambda>n. case finite_window w (take n xs) of None \<Rightarrow> NaN | Some vs \<Rightarrow> agg vs)
         [1..<Suc (length xs)]"

definition rolling_mean :: "nat \<Rightarrow> flt list \<Rightarrow> flt list" where
  "rolling_mean w xs = rolling w mean_of xs"

definition rolling_std :: "nat \<Rightarrow> flt list \<Rightarrow> flt list" where
  "rolling_std w xs = rolling w std_of xs"

text \<open>
  \<open>Series.mean()\<close> and \<open>Series.std()\<close> skip NaN (but not the infinities), and are NaN
  when too few observations remain.
\<close>

definition fsum :: "flt list \<Rightarrow> flt" where
  "fsum xs = foldl fadd (Fin 0) xs"

definition nanmean :: "flt list \<Rightarrow> flt" where
  "nanmean xs =
     (let vs = filter (\<lambda>x. x \<noteq> NaN) xs
      in if vs = [] then NaN else fdiv (fsum vs) (Fin (real (length vs))))"

definition nanstd :: "flt list \<Rightarrow> flt" where
  "nanstd xs =
     (let vs = filter (\<lambda>x. x \<noteq> NaN) xs
      in if length vs \<le> 1 then NaN
         else let avg = fdiv (fsum vs) (Fin (real (length vs)));
                  sqr = map (\<lambda>v. fmul (fsub avg v) (fsub avg v)) vs
              in fsqrt (fdiv (fsum sqr) (Fin (real (length vs - 1)))))"

section \<open>The price table\<close>

text \<open>
  The table \<open>close\<close> has one column per symbol and one row per date; every column has
  as many cells as there are rows.
\<close>

record price_table =
  columns :: "symbol list"
  rows :: "(symbol \<Rightarrow> flt) list"

definition column :: "price_table \<Rightarrow> symbol \<Rightarrow> flt list" where
  "column tbl c = map (\<lambda>r. r c) (rows tbl)"

definition map_columns :: "(flt list \<Rightarrow> flt list) \<Rightarrow> price_table \<Rightarrow> price_table" where
  "map_columns f tbl =
     tbl\<lparr>rows := map (\<lambda>i. \<lambda>c. f (column tbl c) ! i) [0..<length (rows tbl)]\<rparr>"

definition select_columns :: "price_table \<Rightarrow> symbol list \<Rightarrow> price_table" where
  "select_columns tbl cs = tbl\<lparr>columns := cs\<rparr>"

section \<open>Helpers of the strategy\<close>

text \<open>
  \<open>_is_tradeable\<close>, lines 91 to 95. \<open>Securities\<close> maps a symbol to the engine's
  view of it; a price can be \<open>None\<close>.
\<close>

record security =
  IsTradable :: bool
  HasData :: bool
  Price :: "real option"

definition is_tradeable :: "(symbol \<rightharpoonup> security) \<Rightarrow> symbol \<Rightarrow> bool" where
  "is_tradeable secs symb =
     (case secs symb of
        None \<Rightarrow> False
      | Some sec \<Rightarrow>
          IsTradable sec \<and> HasData sec
          \<and> (case Price sec of None \<Rightarrow> False | Some p \<Rightarrow> 0 < p))"

text \<open>\<open>_zscore\<close>, lines 97 to 102.\<close>

definition zscore :: "flt list \<Rightarrow> flt list" where
  "zscore x =
     (let mu = nanmean x; sd = nanstd x
      in if sd = NaN \<or> flt_less sd (Fin (1 / 10 ^ 12)) then map (\<lambda>v. fmul v (Fin 0)) x
         else map (\<lambda>v. fdiv (fsub v mu) sd) x)"

text \<open>
  \<open>_compute_regime_score\<close>, lines 104 to 131. A ratio series has its infinities replaced
  by NaN and its NaN dropped, which keeps the finite ratios.
\<close>

definition safe_ratio :: "flt list \<Rightarrow> flt list \<Rightarrow> flt list" where
  "safe_ratio a b = filter is_fin (map (\<lambda>(x, y). fdiv x y) (zip a b))"

definition ratio_indicator :: "nat \<Rightarrow> flt list \<Rightarrow> py_error + int" where
  "ratio_indicator ma rs =
     bind_err (if ma < length rs then iloc_last (rolling_mean ma rs) else Inr NaN)
       (\<lambda>rs_ma.
          if rs_ma \<noteq> NaN
          then bind_err (iloc_last rs) (\<lambda>l. Inr (if fgt l rs_ma then 1 else 0))
          else Inr 0)"

definition compute_regime_score :: "config \<Rightarrow> price_table \<Rightarrow> py_error + int" where
  "compute_regime_score cfg close =
     (if \<exists>sym \<in> set [soxx cfg, spy cfg, ief cfg, shy cfg]. sym \<notin> set (columns close)
      then Inr 1
      else
        bind_err (iloc_last (rolling_mean (regime_ma cfg) (column close (soxx cfg))))
          (\<lambda>soxx_ma.
        bind_err (iloc_last (column close (soxx cfg)))
          (\<lambda>soxx_last.
        bind_err (ratio_indicator (regime_ma cfg)
                    (safe_ratio (column close (soxx cfg)) (column close (spy cfg))))
          (\<lambda>c2.
        bind_err (ratio_indicator (regime_ma cfg)
                    (safe_ratio (column close (ief cfg)) (column close (shy cfg))))
          (\<lambda>c3.
        Inr ((if fgt soxx_last soxx_ma then 1 else 0) + c2 + c3))))))"

text \<open>
  \<open>_vol_target_scale\<close>, lines 133 to 140. The test \<open>vol < 1e-8\<close> lets \<open>+inf\<close>
  through: the annualized value \<open>ann\<close> is then infinite, as it is when the product
  \<open>vol * sqrt(252)\<close> overflows, and the scale before the clip is \<open>T / inf = 0\<close>.
\<close>

definition latest_vol :: "config \<Rightarrow> flt list \<Rightarrow> py_error + flt" where
  "latest_vol cfg soxx_close =
     iloc_last (rolling_std (vol_target_window cfg) (pct_change 1 soxx_close))"

definition annualized :: "flt \<Rightarrow> flt" where
  "annualized vol = fmul vol (Fin (sqrt 252))"

definition pre_clip_scale :: "config \<Rightarrow> real \<Rightarrow> real" where
  "pre_clip_scale cfg ann = target_annual_vol cfg / max ann (1 / 10 ^ 3)"

definition scale_of_vol :: "config \<Rightarrow> flt \<Rightarrow> real" where
  "scale_of_vol cfg vol =
     (if vol = NaN \<or> flt_less vol (Fin (1 / 10 ^ 8)) then 1
      else case annualized vol of
             Fin ann \<Rightarrow> clip (pre_clip_scale cfg ann) (min_gross cfg) (max_gross cfg)
           | _ \<Rightarrow> clip 0 (min_gross cfg) (max_gross cfg))"

definition vol_target_scale :: "config \<Rightarrow> flt list \<Rightarrow> py_error + real" where
  "vol_target_scale cfg soxx_close =
     bind_err (latest_vol cfg soxx_close) (\<lambda>vol. Inr (scale_of_vol cfg vol))"

text \<open>\<open>_alpha_scores\<close>, lines 142 to 155.\<close>

fun finite_items :: "(symbol \<times> flt) list \<Rightarrow> (symbol \<times> real) list" where
  "finite_items [] = []"
| "finite_items ((s, Fin a) # xs) = (s, a) # finite_items xs"
| "finite_items (x # xs) = finite_items xs"

definition alpha_scores :: "config \<Rightarrow> price_table \<Rightarrow> py_error + (symbol \<times> real) list" where
  "alpha_scores cfg eq_close =
     (if rows eq_close = [] then Inl IndexError
      else let cols = columns eq_close;
               mom = map (\<lambda>c. last (pct_change (mom_lookback cfg) (column eq_close c))) cols;
               vol = map (\<lambda>c. last (rolling_std (vol_score_window cfg)
                                        (pct_change 1 (column eq_close c)))) cols;
               mom_z = zscore mom;
               vol_z = zscore vol;
               score = map (\<lambda>(m, v). fsub m (fmul (Fin (1 / 2)) v)) (zip mom_z vol_z)
           in Inr (finite_items (zip cols score)))"

section \<open>The portfolio constructor\<close>

text \<open>
  \<open>_build_targets\<close>, lines 157 to 229. The score Series is a list of (symbol, score)
  pairs whose symbols are the labels of its index. \<open>nlargest(k)\<close> and \<open>nsmallest(k)\<close>
  keep the first occurrence among equal scores (\<open>keep='first'\<close>): a stable sort,
  descending or ascending, cut after \<open>k\<close> rows. The target dictionary is an association
  list in insertion order; assigning to a key already present replaces its value in place.
  \<open>int(f * n)\<close> truncates the product; \<open>n\<close> is non-negative, and for the fractions used
  here the result is the floor of the exact product.
\<close>

definition nlargest :: "int \<Rightarrow> (symbol \<times> real) list \<Rightarrow> (symbol \<times> real) list" where
  "nlargest k score = take (nat k) (sort_key (\<lambda>p. - snd p) score)"

definition nsmallest :: "int \<Rightarrow> (symbol \<times> real) list \<Rightarrow> (symbol \<times> real) list" where
  "nsmallest k score = take (nat k) (sort_key snd score)"

definition int_of_fraction :: "int \<Rightarrow> int \<Rightarrow> int" where
  "int_of_fraction pct n = (pct * n) div 100"

definition assign :: "symbol list \<Rightarrow> real \<Rightarrow> (symbol \<times> real) list \<Rightarrow> (symbol \<times> real) list" where
  "assign syms w target = fold (\<lambda>s t. AList.update s w t) syms target"

definition long_only_targets ::
  "config \<Rightarrow> (symbol \<times> real) list \<Rightarrow> int \<Rightarrow> real \<Rightarrow> py_error + (symbol \<times> real) list" where
  "long_only_targets cfg score k gross =
     (let longs = map fst (nlargest k score)
      in if longs = [] then Inl ZeroDivisionError
         else Inr (assign longs
                     (clip (gross / real (length longs)) 0 (max_weight_per_name cfg)) []))"

definition long_pre_cap :: "real \<Rightarrow> symbol list \<Rightarrow> real" where
  "long_pre_cap gross longs = (gross * (1 / 2)) / real (length longs)"

definition short_pre_cap :: "real \<Rightarrow> symbol list \<Rightarrow> real" where
  "short_pre_cap gross shorts = - (gross * (1 / 2)) / real (length shorts)"

definition long_short_targets ::
  "config \<Rightarrow> (symbol \<times> real) list \<Rightarrow> int \<Rightarrow> real \<Rightarrow> py_error + (symbol \<times> real) list" where
  "long_short_targets cfg score k gross =
     (let longs = map fst (nlargest k score);
          shorts = map fst (nsmallest k score)
      in if longs = [] \<or> shorts = [] then Inl ZeroDivisionError
         else let lw = clip (long_pre_cap gross longs) 0 (max_weight_per_name cfg);
                  sw = clip (short_pre_cap gross shorts) (- max_weight_per_name cfg) 0
              in Inr (assign shorts sw (assign longs lw [])))"

definition short_only_targets ::
  "config \<Rightarrow> (symbol \<times> real) list \<Rightarrow> int \<Rightarrow> real \<Rightarrow> py_error + (symbol \<times> real) list" where
  "short_only_targets cfg score k gross =
     (let shorts = map fst (nsmallest k score)
      in if shorts = [] then Inl ZeroDivisionError
         else Inr (assign shorts
                     (clip (- gross / real (length shorts)) (- max_weight_per_name cfg) 0) []))"

definition selection_size :: "config \<Rightarrow> int \<Rightarrow> int \<Rightarrow> int" where
  "selection_size cfg regime n =
     (if regime = 3 then max (min_names_each_side cfg) (int_of_fraction 40 n)
      else if regime = 2 then max (min_names_each_side cfg) (int_of_fraction 30 n)
      else if regime = 1 then max (min_names_each_side cfg) (int_of_fraction 25 n)
      else max (min_names_each_side cfg) (int_of_fraction 50 n))"

definition tradeable_scores ::
  "(symbol \<Rightarrow> bool) \<Rightarrow> (symbol \<times> real) list \<Rightarrow> (symbol \<times> real) list" where
  "tradeable_scores tradeable score = filter (\<lambda>p. tradeable (fst p)) score"

definition build_targets ::
  "config \<Rightarrow> (symbol \<Rightarrow> bool) \<Rightarrow> (symbol \<times> real) list \<Rightarrow> int \<Rightarrow> real
     \<Rightarrow> py_error + (symbol \<times> real) list" where
  "build_targets cfg tradeable score0 regime gross =
     (if int (length score0) < 2 * min_names_each_side cfg then Inr []
      else let score = tradeable_scores tradeable score0
           in if int (length score) < 2 * min_names_each_side cfg then Inr []
              else let k = selection_size cfg regime (int (length score))
                   in if regime = 3 then long_only_targets cfg score k gross
                      else if regime = 2 then long_short_targets cfg score k gross
                      else if regime = 1 then long_short_targets cfg score k gross
                      else short_only_targets cfg score k gross)"

section \<open>Gross budget of a cycle\<close>

text \<open>
  Lines 258 to 267 of \<open>Rebalance\<close>: the regime picks a preset, which is multiplied by
  the volatility scale and clipped to \<open>[0.0, max_gross]\<close>.
\<close>

definition base_gross :: "config \<Rightarrow> int \<Rightarrow> real" where
  "base_gross cfg regime =
     (if regime = 3 then gross_bull cfg
      else if regime = 2 then gross_mixed cfg
      else if regime = 1 then gross_neutral cfg
      else gross_bear cfg)"

definition gross_budget :: "config \<Rightarrow> int \<Rightarrow> real \<Rightarrow> real" where
  "gross_budget cfg regime gross_scale =
     clip (base_gross cfg regime * gross_scale) 0 (max_gross cfg)"

section \<open>The rebalance cycle\<close>

text \<open>
  \<open>Rebalance\<close>, lines 233 to 282. The object keeps one attribute across cycles,
  \<open>_last_rebalance_date\<close>. What the engine supplies to a cycle is its environment: the
  warm-up flag, the date, the answer of \<open>History\<close> together with the outcome of the
  reshape (\<open>hist["close"].unstack(level=0).sort_index()\<close>, which may raise), the
  securities with their tradability, and the portfolio. What the cycle asks of the engine is a
  list of actions, in order. A log line is kept as a structured record.
\<close>

type_synonym date = nat

datatype history =
    HistEmpty
  | HistReshapeFails string
  | HistTable price_table

datatype log_record =
    NoHistory
  | ReshapeFailed string
  | RebalanceDone int real nat

datatype action =
    Log log_record
  | Liquidate symbol
  | SetHoldings symbol real

record environment =
  is_warming_up :: bool
  time_date :: date
  fetched :: history
  securities :: "symbol \<rightharpoonup> security"
  portfolio_keys :: "symbol list"
  invested :: "symbol \<Rightarrow> bool"

record algo_state =
  last_rebalance_date :: "date option"

record outcome =
  state_after :: algo_state
  actions :: "action list"
  raised :: "py_error option"

text \<open>
  Lines 255 to 271: regime, gross budget, scores and targets from the table \<open>close\<close>.
  \<open>close[self.soxx]\<close> raises KeyError when the column is absent.
\<close>

definition get_column :: "price_table \<Rightarrow> symbol \<Rightarrow> py_error + flt list" where
  "get_column tbl c = (if c \<in> set (columns tbl) then Inr (column tbl c) else Inl KeyError)"

definition pipeline ::
  "config \<Rightarrow> (symbol \<Rightarrow> bool) \<Rightarrow> price_table
     \<Rightarrow> py_error + (int \<times> real \<times> (symbol \<times> real) list)" where
  "pipeline cfg tradeable close =
     bind_err (compute_regime_score cfg close)
       (\<lambda>regime.
     bind_err (get_column close (soxx cfg))
       (\<lambda>soxx_close.
     bind_err (vol_target_scale cfg soxx_close)
       (\<lambda>gross_scale.
     bind_err (alpha_scores cfg
                 (select_columns close (filter (\<lambda>s. s \<in> set (columns close)) (semis cfg))))
       (\<lambda>score.
     bind_err (build_targets cfg tradeable score regime
                 (gross_budget cfg regime gross_scale))
       (\<lambda>target. Inr (regime, gross_budget cfg regime gross_scale, target))))))"

definition apply_targets ::
  "environment \<Rightarrow> int \<Rightarrow> real \<Rightarrow> (symbol \<times> real) list \<Rightarrow> action list" where
  "apply_targets env regime gross target =
     map Liquidate
         (filter (\<lambda>sym. invested env sym \<and> sym \<notin> set (map fst target)) (portfolio_keys env))
     @ map (\<lambda>(sym, w). SetHoldings sym w) (filter (\<lambda>(sym, w). is_tradeable (securities env) sym) target)
     @ [Log (RebalanceDone regime gross (length target))]"

definition Rebalance :: "config \<Rightarrow> environment \<Rightarrow> algo_state \<Rightarrow> outcome" where
  "Rebalance cfg env st =
     (if is_warming_up env then \<lparr>state_after = st, actions = [], raised = None\<rparr>
      else if last_rebalance_date st = Some (time_date env)
      then \<lparr>state_after = st, actions = [], raised = None\<rparr>
      else
        let st1 = st\<lparr>last_rebalance_date := Some (time_date env)\<rparr>
        in case fetched env of
             HistEmpty \<Rightarrow> \<lparr>state_after = st1, actions = [Log NoHistory], raised = None\<rparr>
           | HistReshapeFails e \<Rightarrow>
               \<lparr>state_after = st1, actions = [Log (ReshapeFailed e)], raised = None\<rparr>
           | HistTable tbl \<Rightarrow>
               (case pipeline cfg (is_tradeable (securities env))
                       (map_columns bfill (map_columns ffill tbl)) of
                  Inl e \<Rightarrow> \<lparr>state_after = st1, actions = [], raised = Some e\<rparr>
                | Inr (regime, gross, target) \<Rightarrow>
                    \<lparr>state_after = st1, actions = apply_targets env regime gross target,
                     raised = None\<rparr>))"

section \<open>An example universe\<close>

text \<open>Ten instruments of the basket with scores, used to run the constructor.\<close>

definition example_scores :: "(symbol \<times> real) list" where
  "example_scores =
     [(''NVDA'', 2), (''AMD'', 1), (''AVGO'', 3 / 2), (''QCOM'', - 1), (''TXN'', 0),
      (''INTC'', - 2), (''MU'', 1 / 2), (''ADI'', - 1 / 2), (''ON'', - 3 / 2), (''MCHP'', 1 / 4)]"

definition tied_scores :: "(symbol \<times> real) list" where
  "tied_scores =
     [(''NVDA'', 0), (''AMD'', 0), (''AVGO'', 0), (''QCOM'', 0), (''TXN'', 0),
      (''INTC'', 0), (''MU'', 0), (''ADI'', 0)]"

text \<open>
  Tables and environments for running the cycle: a table of two rows where every price is
  100, one without rows, one without the short-rate column.
\<close>

definition flat_table :: price_table where
  "flat_table =
     \<lparr> columns = [''SOXX'', ''SPY'', ''IEF'', ''SHY''] @ semis Initialize,
       rows = [\<lambda>s. Fin 100, \<lambda>s. Fin 100] \<rparr>"

definition flat_env :: "date \<Rightarrow> environment" where
  "flat_env d =
     \<lparr> is_warming_up = False, time_date = d, fetched = HistTable flat_table,
       securities = (\<lambda>s. Some \<lparr>IsTradable = True, HasData = True, Price = Some 100\<rparr>),
       portfolio_keys = [''NVDA'', ''SPY'', ''AMD''],
       invested = (\<lambda>s. s = ''NVDA'') \<rparr>"

definition no_history_env :: "date \<Rightarrow> environment" where
  "no_history_env d = (flat_env d)\<lparr>fetched := HistEmpty\<rparr>"

definition bad_history_env :: "date \<Rightarrow> environment" where
  "bad_history_env d = (flat_env d)\<lparr>fetched := HistReshapeFails ''duplicate entries''\<rparr>"

definition no_rows_table :: price_table where
  "no_rows_table = \<lparr> columns = [''SOXX'', ''SPY'', ''IEF'', ''SHY''], rows = [] \<rparr>"

definition no_shy_table :: price_table where
  "no_shy_table = \<lparr> columns = [''SOXX'', ''SPY'', ''IEF''], rows = [\<lambda>s. Fin 100] \<rparr>"

text \<open>
  Price series of 21 closes for the volatility targeter: one that never moves, one whose
  realized annualized volatility is the target, one far above it, one far below it, and
  one with a jump so large that the squared deviations leave the range of a double.
\<close>

definition constant_prices :: "flt list" where
  "constant_prices =
     map Fin [100, 100, 100, 100, 100, 100, 100, 100, 100, 100, 100, 100, 100, 100, 100,
              100, 100, 100, 100, 100, 100]"

definition on_target_prices :: "flt list" where
  "on_target_prices =
     map Fin [100, 100, 100, 100, 100, 100, 100, 100, 100, 100, 100, 100, 100, 100, 100,
              2140 / 21, 44084 / 441, 3096901 / 30870, 96003931 / 960400,
              80739305971 / 806736000, 67740277709669 / 677658240000]"

definition high_vol_prices :: "flt list" where
  "high_vol_prices =
     map Fin [100, 100, 100, 100, 100, 100, 100, 100, 100, 100, 100, 100, 100, 100, 100,
              160, 64, 352 / 5, 1584 / 25, 8712 / 125, 39204 / 625]"

definition low_vol_prices :: "flt list" where
  "low_vol_prices =
     map Fin [100, 100, 100, 100, 100, 100, 100, 100, 100, 100, 100, 100, 100, 100, 100,
              503 / 5, 249991 / 2500, 250240991 / 2500000, 249990750009 / 2500000000,
              250240740759009 / 2500000000000, 249990500018249991 / 2500000000000000]"

definition spike_prices :: "flt list" where
  "spike_prices =
     map Fin [1, 1, 1, 1, 1, 1, 1, 1, 1, 1, 1, 1, 1, 1, 1, 1, 1, 1, 1, 10 ^ 160, 10 ^ 160]"

text \<open>
  A table of 127 rows: every price is 100 on the first row and moves once, on the second
  row, to a level it keeps, so that the basket has eight different momenta and eight
  equal ones. Two environments fetch it; they differ in the date, in a security outside
  the basket and in a holding outside the portfolio keys. The scores and the targets the
  cycle computes from the table are named for reference.
\<close>

definition trend_later :: "symbol \<Rightarrow> real" where
  "trend_later s =
     (if s = ''NVDA'' then 104 else if s = ''AMD'' then 96
      else if s = ''AVGO'' then 103 else if s = ''QCOM'' then 97
      else if s = ''TXN'' then 102 else if s = ''INTC'' then 98
      else if s = ''MU'' then 101 else if s = ''ADI'' then 99
      else 100)"

definition trend_table :: price_table where
  "trend_table =
     \<lparr> columns = [''SOXX'', ''SPY'', ''IEF'', ''SHY''] @ semis Initialize,
       rows = (\<lambda>s. Fin 100) # replicate 126 (\<lambda>s. Fin (trend_later s)) \<rparr>"

definition trend_env :: environment where
  "trend_env =
     \<lparr> is_warming_up = False, time_date = 5, fetched = HistTable trend_table,
       securities = (\<lambda>s. Some \<lparr>IsTradable = True, HasData = True, Price = Some 100\<rparr>),
       portfolio_keys = [''NVDA'', ''AMD''],
       invested = (\<lambda>s. s = ''NVDA'' \<or> s = ''AMD'') \<rparr>"

definition trend_env_later :: environment where
  "trend_env_later =
     \<lparr> is_warming_up = False, time_date = 40, fetched = HistTable trend_table,
       securities = (\<lambda>s. if s = ''SPY'' then None
                          else Some \<lparr>IsTradable = True, HasData = True, Price = Some 100\<rparr>),
       portfolio_keys = [''NVDA'', ''AMD''],
       invested = (\<lambda>s. s = ''NVDA'' \<or> s = ''AMD'' \<or> s = ''SPY'') \<rparr>"

definition trend_scores :: "(symbol \<times> real) list" where
  "trend_scores =
     [(''NVDA'', 2), (''AMD'', - 2), (''AVGO'', 3 / 2), (''QCOM'', - (3 / 2)), (''TXN'', 1),
      (''INTC'', - 1), (''MU'', 1 / 2), (''ADI'', - (1 / 2)), (''ON'', 0), (''MCHP'', 0),
      (''NXPI'', 0), (''MRVL'', 0), (''KLAC'', 0), (''LRCX'', 0), (''AMAT'', 0), (''TER'', 0)]"

definition trend_targets :: "(symbol \<times> real) list" where
  "trend_targets =
     [(''AMD'', - (9 / 80)), (''QCOM'', - (9 / 80)), (''INTC'', - (9 / 80)),
      (''ADI'', - (9 / 80)), (''ON'', - (9 / 80)), (''MCHP'', - (9 / 80)),
      (''NXPI'', - (9 / 80)), (''MRVL'', - (9 / 80))]"

section \<open>Properties\<close>

subsection \<open>Facts about the target dictionary and the selection\<close>

lemma update_values: "set (map snd (AList.update k v al)) \<subseteq> insert v (set (map snd al))"
  by (induction al) auto

lemma assign_values: "set (map snd (assign syms w t)) \<subseteq> insert w (set (map snd t))"
proof (induction syms arbitrary: t)
  case Nil
  then show ?case by (auto simp: assign_def)
next
  case (Cons s syms)
  have "assign (s # syms) w t = assign syms w (AList.update s w t)"
    by (simp add: assign_def)
  with Cons [of "AList.update s w t"] update_values [of s w t] show ?case by auto
qed

lemma assign_map_of:
  "map_of (assign syms w t) s = (if s \<in> set syms then Some w else map_of t s)"
proof (induction syms arbitrary: t)
  case Nil
  then show ?case by (simp add: assign_def)
next
  case (Cons a syms)
  have "assign (a # syms) w t = assign syms w (AList.update a w t)"
    by (simp add: assign_def)
  then show ?case using Cons [of "AList.update a w t"] by (simp add: update_conv')
qed

lemma assign_keys: "set (map fst (assign syms w t)) = set (map fst t) \<union> set syms"
proof (induction syms arbitrary: t)
  case Nil
  then show ?case by (simp add: assign_def)
next
  case (Cons a syms)
  have "assign (a # syms) w t = assign syms w (AList.update a w t)"
    by (simp add: assign_def)
  then show ?case using Cons [of "AList.update a w t"] by (auto simp: update_keys)
qed

lemma assign_distinct: "distinct (map fst t) \<Longrightarrow> distinct (map fst (assign syms w t))"
proof (induction syms arbitrary: t)
  case Nil
  then show ?case by (simp add: assign_def)
next
  case (Cons a syms)
  have "assign (a # syms) w t = assign syms w (AList.update a w t)"
    by (simp add: assign_def)
  then show ?case using Cons.IH [of "AList.update a w t"] Cons.prems
    by (simp add: distinct_update)
qed

lemma update_fresh: "k \<notin> fst ` set al \<Longrightarrow> AList.update k v al = al @ [(k, v)]"
  by (induction al) auto

lemma assign_fresh:
  "distinct syms \<Longrightarrow> set syms \<inter> fst ` set t = {} \<Longrightarrow>
   assign syms w t = t @ map (\<lambda>s. (s, w)) syms"
proof (induction syms arbitrary: t)
  case Nil
  then show ?case by (simp add: assign_def)
next
  case (Cons a syms)
  have e: "assign (a # syms) w t = assign syms w (AList.update a w t)"
    by (simp add: assign_def)
  have u: "AList.update a w t = t @ [(a, w)]"
    using Cons.prems by (intro update_fresh) auto
  have "assign syms w (t @ [(a, w)]) = (t @ [(a, w)]) @ map (\<lambda>s. (s, w)) syms"
    using Cons.prems by (intro Cons.IH) auto
  with e u show ?case by simp
qed

lemma clip_abs_long: "0 \<le> cap \<Longrightarrow> \<bar>clip x 0 cap\<bar> \<le> cap"
  by (auto simp: clip_def)

lemma clip_abs_short: "0 \<le> cap \<Longrightarrow> \<bar>clip x (- cap) 0\<bar> \<le> cap"
  by (auto simp: clip_def)

lemma long_only_cap:
  assumes "0 \<le> max_weight_per_name cfg" "long_only_targets cfg score k gross = Inr target"
    "w \<in> set (map snd target)"
  shows "\<bar>w\<bar> \<le> max_weight_per_name cfg"
proof -
  let ?longs = "map fst (nlargest k score)"
  let ?lw = "clip (gross / real (length ?longs)) 0 (max_weight_per_name cfg)"
  from assms(2) have "target = assign ?longs ?lw []"
    by (auto simp: long_only_targets_def Let_def split: if_splits)
  with assms(3) assign_values [of ?longs ?lw "[]"] have "w = ?lw" by auto
  with assms(1) show ?thesis by (simp add: clip_abs_long)
qed

lemma short_only_cap:
  assumes "0 \<le> max_weight_per_name cfg" "short_only_targets cfg score k gross = Inr target"
    "w \<in> set (map snd target)"
  shows "\<bar>w\<bar> \<le> max_weight_per_name cfg"
proof -
  let ?shorts = "map fst (nsmallest k score)"
  let ?sw = "clip (- gross / real (length ?shorts)) (- max_weight_per_name cfg) 0"
  from assms(2) have "target = assign ?shorts ?sw []"
    by (auto simp: short_only_targets_def Let_def split: if_splits)
  with assms(3) assign_values [of ?shorts ?sw "[]"] have "w = ?sw" by auto
  with assms(1) show ?thesis by (simp add: clip_abs_short)
qed

lemma long_short_cap:
  assumes "0 \<le> max_weight_per_name cfg" "long_short_targets cfg score k gross = Inr target"
    "w \<in> set (map snd target)"
  shows "\<bar>w\<bar> \<le> max_weight_per_name cfg"
proof -
  let ?longs = "map fst (nlargest k score)"
  let ?shorts = "map fst (nsmallest k score)"
  let ?lw = "clip (long_pre_cap gross ?longs) 0 (max_weight_per_name cfg)"
  let ?sw = "clip (short_pre_cap gross ?shorts) (- max_weight_per_name cfg) 0"
  from assms(2) have "target = assign ?shorts ?sw (assign ?longs ?lw [])"
    by (auto simp: long_short_targets_def Let_def split: if_splits)
  with assms(3) assign_values [of ?shorts ?sw "assign ?longs ?lw []"]
    assign_values [of ?longs ?lw "[]"]
  have "w = ?lw \<or> w = ?sw" by auto
  with assms(1) show ?thesis using clip_abs_long clip_abs_short by metis
qed

lemma build_targets_cases:
  assumes "build_targets cfg tradeable score regime gross = Inr target"
  shows "target = []
     \<or> long_only_targets cfg (tradeable_scores tradeable score)
          (selection_size cfg regime (int (length (tradeable_scores tradeable score)))) gross
          = Inr target
     \<or> long_short_targets cfg (tradeable_scores tradeable score)
          (selection_size cfg regime (int (length (tradeable_scores tradeable score)))) gross
          = Inr target
     \<or> short_only_targets cfg (tradeable_scores tradeable score)
          (selection_size cfg regime (int (length (tradeable_scores tradeable score)))) gross
          = Inr target"
proof (cases "int (length score) < 2 * min_names_each_side cfg
              \<or> int (length (tradeable_scores tradeable score)) < 2 * min_names_each_side cfg")
  case True
  then have "build_targets cfg tradeable score regime gross = Inr []"
    by (cases "int (length score) < 2 * min_names_each_side cfg")
       (simp_all add: build_targets_def Let_def)
  with assms show ?thesis by simp
next
  case False
  then have e: "build_targets cfg tradeable score regime gross =
     (let score = tradeable_scores tradeable score; k = selection_size cfg regime (int (length score))
      in if regime = 3 then long_only_targets cfg score k gross
         else if regime = 2 then long_short_targets cfg score k gross
         else if regime = 1 then long_short_targets cfg score k gross
         else short_only_targets cfg score k gross)"
    by (simp add: build_targets_def Let_def)
  show ?thesis
  proof (cases "regime = 3")
    case True
    with e assms show ?thesis by (simp add: Let_def)
  next
    case r3: False
    show ?thesis
    proof (cases "regime = 2 \<or> regime = 1")
      case True
      with e assms r3 show ?thesis by (auto simp add: Let_def)
    next
      case False
      with e assms r3 show ?thesis by (simp add: Let_def)
    qed
  qed
qed

lemma distinct_fst_sort_key:
  "distinct (map fst (sort_key f xs)) = distinct (map fst xs)"
proof -
  have "mset (map fst (sort_key f xs)) = mset (map fst xs)" by simp
  then show ?thesis by (rule mset_eq_imp_distinct_iff)
qed

lemma distinct_fst_take: "distinct (map fst xs) \<Longrightarrow> distinct (map fst (take n xs))"
  by (simp add: take_map [symmetric])

lemma nsmallest_distinct:
  "distinct (map fst score) \<Longrightarrow> distinct (map fst (nsmallest k score))"
  unfolding nsmallest_def by (intro distinct_fst_take) (simp add: distinct_fst_sort_key)

lemma nlargest_distinct:
  "distinct (map fst score) \<Longrightarrow> distinct (map fst (nlargest k score))"
  unfolding nlargest_def by (intro distinct_fst_take) (simp add: distinct_fst_sort_key)

lemma nsmallest_length: "length (nsmallest k score) = min (nat k) (length score)"
  by (simp add: nsmallest_def)

lemma nlargest_length: "length (nlargest k score) = min (nat k) (length score)"
  by (simp add: nlargest_def)

lemma assign_empty_distinct: "distinct syms \<Longrightarrow> assign syms w [] = map (\<lambda>s. (s, w)) syms"
  using assign_fresh [of syms "[]" w] by simp

lemma sorted_take_drop_le:
  assumes "p \<in> set (take n (sort_key snd score))" "q \<in> set (drop n (sort_key snd score))"
  shows "snd p \<le> (snd q :: real)"
proof -
  let ?xs = "sort_key snd score"
  have "sorted (map snd (take n ?xs @ drop n ?xs))" by simp
  then have "\<forall>x \<in> set (map snd (take n ?xs)). \<forall>y \<in> set (map snd (drop n ?xs)). x \<le> y"
    unfolding map_append sorted_append by blast
  with assms show ?thesis by auto
qed

lemma build_targets_two_sided:
  assumes "regime = 2 \<or> regime = 1"
    and "2 * min_names_each_side cfg \<le> int (length (tradeable_scores tradeable score))"
  shows "build_targets cfg tradeable score regime gross
         = long_short_targets cfg (tradeable_scores tradeable score)
             (selection_size cfg regime (int (length (tradeable_scores tradeable score)))) gross"
proof -
  have "length (tradeable_scores tradeable score) \<le> length score"
    by (simp add: tradeable_scores_def)
  with assms(2) have "\<not> int (length score) < 2 * min_names_each_side cfg" by linarith
  with assms show ?thesis by (auto simp: build_targets_def Let_def)
qed

lemma long_short_targets_shape:
  assumes "map fst (nlargest k sc) \<noteq> []" "map fst (nsmallest k sc) \<noteq> []"
  shows "long_short_targets cfg sc k gross
         = Inr (assign (map fst (nsmallest k sc))
                  (clip (short_pre_cap gross (map fst (nsmallest k sc)))
                     (- max_weight_per_name cfg) 0)
                  (assign (map fst (nlargest k sc))
                     (clip (long_pre_cap gross (map fst (nlargest k sc)))
                        0 (max_weight_per_name cfg)) []))"
  using assms by (simp add: long_short_targets_def Let_def)

lemma two_assign_length:
  assumes "s \<in> set longs" "s \<in> set shorts"
  shows "length (assign shorts sw (assign longs lw [])) < length longs + length shorts"
proof -
  let ?t = "assign shorts sw (assign longs lw [])"
  have d: "distinct (map fst ?t)" by (intro assign_distinct) simp
  have k: "set (map fst ?t) = set longs \<union> set shorts" unfolding assign_keys by simp
  have "card (set (map fst ?t)) = length (map fst ?t)" using d by (rule distinct_card)
  then have l: "length ?t = card (set longs \<union> set shorts)" unfolding k by simp
  have "card (set longs \<union> set shorts) + card (set longs \<inter> set shorts)
        = card (set longs) + card (set shorts)"
    using card_Un_Int [of "set longs" "set shorts"] by simp
  moreover have "0 < card (set longs \<inter> set shorts)"
    using assms by (auto simp: card_gt_0_iff)
  moreover have "card (set longs) \<le> length longs" "card (set shorts) \<le> length shorts"
    by (rule card_length)+
  ultimately show ?thesis using l by linarith
qed

lemma assign_entry:
  assumes "distinct (map fst t)" "(s, w) \<in> set (assign syms v t)"
  shows "w = (if s \<in> set syms then v else the (map_of t s))"
proof -
  have "distinct (map fst (assign syms v t))" using assms(1) by (rule assign_distinct)
  with assms(2) have "map_of (assign syms v t) s = Some w" by simp
  then show ?thesis by (simp add: assign_map_of split: if_splits)
qed











lemma example_selection:
  "tradeable_scores (\<lambda>s. True) example_scores = example_scores"
  "selection_size Initialize 2 (int (length example_scores)) = 4"
  "map fst (nlargest 4 example_scores) = [''NVDA'', ''AVGO'', ''AMD'', ''MU'']"
  "map fst (nsmallest 4 example_scores) = [''INTC'', ''ON'', ''QCOM'', ''ADI'']"
  by (simp_all add: tradeable_scores_def selection_size_def int_of_fraction_def Initialize_def
      nlargest_def nsmallest_def example_scores_def)

lemma example_mixed_targets:
  "build_targets Initialize (\<lambda>s. True) example_scores 2 1
     = Inr [(''NVDA'', 12 / 100), (''AVGO'', 12 / 100), (''AMD'', 12 / 100), (''MU'', 12 / 100),
            (''INTC'', - (12 / 100)), (''ON'', - (12 / 100)), (''QCOM'', - (12 / 100)),
            (''ADI'', - (12 / 100))]"
proof -
  have f: "2 * min_names_each_side Initialize
           \<le> int (length (tradeable_scores (\<lambda>s. True) example_scores))"
    unfolding example_selection by (simp add: example_scores_def Initialize_def)
  have r: "(2::int) = 2 \<or> (2::int) = 1" by simp
  have "long_short_targets Initialize example_scores 4 1
       = Inr [(''NVDA'', 12 / 100), (''AVGO'', 12 / 100), (''AMD'', 12 / 100), (''MU'', 12 / 100),
              (''INTC'', - (12 / 100)), (''ON'', - (12 / 100)), (''QCOM'', - (12 / 100)),
              (''ADI'', - (12 / 100))]"
    by (simp add: long_short_targets_def example_selection Let_def assign_def clip_def
        long_pre_cap_def short_pre_cap_def Initialize_def)
  with build_targets_two_sided [OF r f, of 1] show ?thesis
    unfolding example_selection by simp
qed

subsection \<open>Facts about the rolling statistics and the example inputs\<close>

lemma float_max_lower: "10 ^ 300 \<le> float_max"
  by (simp add: float_max_def)

lemma float_max_upper: "float_max < 10 ^ 309"
  by (simp add: float_max_def)

lemma to_float_in_range: "\<bar>x\<bar> \<le> 10 ^ 300 \<Longrightarrow> to_float x = Fin x"
  using float_max_lower by (auto simp: to_float_def)

lemma length_rolling: "length (rolling w agg xs) = length xs"
  unfolding rolling_def by (simp only: length_map length_upt diff_Suc_1)

lemma last_rolling:
  assumes "xs \<noteq> []"
  shows "last (rolling w agg xs)
         = (case finite_window w xs of None \<Rightarrow> NaN | Some vs \<Rightarrow> agg vs)"
proof -
  have n: "1 < Suc (length xs)" using assms by (cases xs) auto
  then have ne: "[1..<Suc (length xs)] \<noteq> []" by (simp only: upt_eq_Nil_conv) simp
  have l: "last [1..<Suc (length xs)] = length xs" using n by (simp only: last_upt diff_Suc_1)
  show ?thesis unfolding rolling_def by (simp only: last_map [OF ne] l take_all order_refl)
qed

lemma iloc_last_rolling:
  "iloc_last (rolling w agg xs)
   = (if xs = [] then Inl IndexError
      else Inr (case finite_window w xs of None \<Rightarrow> NaN | Some vs \<Rightarrow> agg vs))"
proof (cases "xs = []")
  case True
  then show ?thesis by (simp add: iloc_last_def rolling_def)
next
  case False
  then have "rolling w agg xs \<noteq> []" using length_rolling [of w agg xs] by auto
  with False show ?thesis by (simp add: iloc_last_def last_rolling)
qed

lemma flat_column: "column flat_table c = [Fin 100, Fin 100]"
  by (simp add: column_def flat_table_def)

lemma fgt_NaN_right: "fgt x NaN = False"
  by (cases x) simp_all

lemma ratio_indicator_total:
  "ratio_indicator ma rs = Inr 0 \<or> ratio_indicator ma rs = Inr 1"
proof (cases "ma < length rs")
  case True
  then have ne: "rs \<noteq> []" by auto
  have m: "iloc_last (rolling_mean ma rs)
           = Inr (case finite_window ma rs of None \<Rightarrow> NaN | Some vs \<Rightarrow> mean_of vs)"
    unfolding rolling_mean_def iloc_last_rolling using ne by simp
  have l: "iloc_last rs = Inr (last rs)" using ne by (simp add: iloc_last_def)
  show ?thesis
    unfolding ratio_indicator_def using True by (simp add: m l bind_err_def)
next
  case False
  then show ?thesis by (simp add: ratio_indicator_def bind_err_def)
qed

lemma ratio_indicator_short:
  "length rs \<le> ma \<Longrightarrow> ratio_indicator ma rs = Inr 0"
  by (simp add: ratio_indicator_def bind_err_def)

lemma regime_score_present:
  assumes "\<not> (\<exists>sym \<in> set [soxx cfg, spy cfg, ief cfg, shy cfg]. sym \<notin> set (columns close))"
    and "rows close \<noteq> []"
  shows "compute_regime_score cfg close
         = bind_err (ratio_indicator (regime_ma cfg)
                      (safe_ratio (column close (soxx cfg)) (column close (spy cfg))))
             (\<lambda>c2. bind_err (ratio_indicator (regime_ma cfg)
                      (safe_ratio (column close (ief cfg)) (column close (shy cfg))))
             (\<lambda>c3. Inr ((if fgt (last (column close (soxx cfg)))
                              (case finite_window (regime_ma cfg) (column close (soxx cfg)) of
                                 None \<Rightarrow> NaN | Some vs \<Rightarrow> mean_of vs)
                          then 1 else 0) + c2 + c3)))"
proof -
  have ne: "column close (soxx cfg) \<noteq> []" using assms(2) by (simp add: column_def)
  have m: "iloc_last (rolling_mean (regime_ma cfg) (column close (soxx cfg)))
           = Inr (case finite_window (regime_ma cfg) (column close (soxx cfg)) of
                    None \<Rightarrow> NaN | Some vs \<Rightarrow> mean_of vs)"
    unfolding rolling_mean_def iloc_last_rolling using ne by simp
  have l: "iloc_last (column close (soxx cfg)) = Inr (last (column close (soxx cfg)))"
    using ne by (simp add: iloc_last_def)
  show ?thesis
    unfolding compute_regime_score_def
    by (simp only: assms(1) if_False m l) (simp add: bind_err_def)
qed

lemma to_float_small: "\<bar>x\<bar> \<le> 1000 \<Longrightarrow> to_float x = Fin x"
  using float_max_lower by (auto simp: to_float_def intro: order_trans)

lemma finite_values_Fin: "finite_values (map Fin vs) = Some vs"
  by (induction vs) auto

lemma finite_window_returns:
  "length vs = w \<Longrightarrow> finite_window w (NaN # map Fin vs) = Some vs"
  by (simp add: finite_window_def finite_values_Fin)

lemma latest_vol_returns:
  assumes "pct_change 1 prices = NaN # map Fin vs" "length vs = vol_target_window cfg"
  shows "latest_vol cfg prices = Inr (std_of vs)"
  unfolding latest_vol_def rolling_std_def iloc_last_rolling assms(1)
  by (simp add: finite_window_returns [OF assms(2)])

lemma three_moves_std:
  assumes "2 * (a\<^sup>2 + b\<^sup>2 + c\<^sup>2) \<le> float_max"
  shows "std_of [0, 0, 0, 0, 0, 0, 0, 0, 0, 0, 0, 0, 0, 0, a, - a, b, - b, c, - c]
         = Fin (sqrt (2 * (a\<^sup>2 + b\<^sup>2 + c\<^sup>2) / 19))"
  using assms by (simp add: std_of_def Let_def power2_eq_square)

lemma spike_std:
  assumes "float_max < 19 * a\<^sup>2 / 20"
  shows "std_of [0, 0, 0, 0, 0, 0, 0, 0, 0, 0, 0, 0, 0, 0, 0, 0, 0, 0, a, 0] = PInf"
proof -
  have "sum_list (map (\<lambda>v. (v - sum_list [0, 0, 0, 0, 0, 0, 0, 0, 0, 0, 0, 0, 0, 0, 0, 0, 0, 0, a, 0]
            / real (length [0, 0, 0, 0, 0, 0, 0, 0, 0, 0, 0, 0, 0, 0, 0, 0, 0, 0, a, 0 :: real]))\<^sup>2)
          [0, 0, 0, 0, 0, 0, 0, 0, 0, 0, 0, 0, 0, 0, 0, 0, 0, 0, a, 0]) = 19 * a\<^sup>2 / 20"
    by (simp add: power2_eq_square field_simps)
  with assms show ?thesis unfolding std_of_def Let_def by simp
qed

lemma constant_returns:
  "pct_change 1 constant_prices
   = NaN # map Fin [0, 0, 0, 0, 0, 0, 0, 0, 0, 0, 0, 0, 0, 0, 0, - 0, 0, - 0, 0, - 0]"
  by (simp add: pct_change_def constant_prices_def ffill_def fsub_def Let_def to_float_small)

lemma on_target_returns:
  "pct_change 1 on_target_prices
   = NaN # map Fin [0, 0, 0, 0, 0, 0, 0, 0, 0, 0, 0, 0, 0, 0,
                    2 / 105, - (2 / 105), 1 / 280, - (1 / 280), 1 / 840, - (1 / 840)]"
  by (simp add: pct_change_def on_target_prices_def ffill_def fsub_def Let_def to_float_small)

lemma high_vol_returns:
  "pct_change 1 high_vol_prices
   = NaN # map Fin [0, 0, 0, 0, 0, 0, 0, 0, 0, 0, 0, 0, 0, 0,
                    6 / 10, - (6 / 10), 1 / 10, - (1 / 10), 1 / 10, - (1 / 10)]"
  by (simp add: pct_change_def high_vol_prices_def ffill_def fsub_def Let_def to_float_small)

lemma low_vol_returns:
  "pct_change 1 low_vol_prices
   = NaN # map Fin [0, 0, 0, 0, 0, 0, 0, 0, 0, 0, 0, 0, 0, 0,
                    6 / 1000, - (6 / 1000), 1 / 1000, - (1 / 1000), 1 / 1000, - (1 / 1000)]"
  by (simp add: pct_change_def low_vol_prices_def ffill_def fsub_def Let_def to_float_small)

lemma to_float_large: "\<bar>x\<bar> \<le> 100000000000000000000000000000000000000000000000000000000000000000000000000000000000000000000000000000000000000000000000000000000000000000000000000000000000000000 \<Longrightarrow> to_float x = Fin x"
proof -
  have "(100000000000000000000000000000000000000000000000000000000000000000000000000000000000000000000000000000000000000000000000000000000000000000000000000000000000000000::real) = 10 ^ 161" by simp
  also have "\<dots> \<le> 10 ^ 300" by (rule power_increasing) simp_all
  finally show "\<bar>x\<bar> \<le> 100000000000000000000000000000000000000000000000000000000000000000000000000000000000000000000000000000000000000000000000000000000000000000000000000000000000000000 \<Longrightarrow> to_float x = Fin x"
    using to_float_in_range [of x] by linarith
qed

lemma spike_returns:
  "pct_change 1 spike_prices
   = NaN # map Fin [0, 0, 0, 0, 0, 0, 0, 0, 0, 0, 0, 0, 0, 0, 0, 0, 0, 0, 10 ^ 160 - 1, 0]"
  by (simp add: pct_change_def spike_prices_def ffill_def fsub_def Let_def to_float_large)

lemma spike_vol: "latest_vol Initialize spike_prices = Inr PInf"
proof -
  have "float_max < 10 ^ 309" by (rule float_max_upper)
  also have "(10::real) ^ 309 \<le> 19 * (10 ^ 160 - 1)\<^sup>2 / 20" by simp
  finally have "float_max < 19 * (10 ^ 160 - 1)\<^sup>2 / 20" .
  then have s: "std_of [0, 0, 0, 0, 0, 0, 0, 0, 0, 0, 0, 0, 0, 0, 0, 0, 0, 0, 10 ^ 160 - 1, 0]
                = PInf"
    by (rule spike_std)
  have "latest_vol Initialize spike_prices
        = Inr (std_of [0, 0, 0, 0, 0, 0, 0, 0, 0, 0, 0, 0, 0, 0, 0, 0, 0, 0, 10 ^ 160 - 1, 0])"
    by (rule latest_vol_returns [OF spike_returns]) (simp add: Initialize_def)
  then show ?thesis by (simp only: s)
qed

lemma sqrt_252_bounds: "15 \<le> sqrt 252" "sqrt 252 \<le> 16"
  by (rule real_le_rsqrt, simp) (rule real_le_lsqrt, simp_all)

lemma float_max_ge_256: "256 \<le> float_max"
  using float_max_lower by (rule order_trans [rotated]) simp

lemma std_of_cases:
  "std_of vs = NaN \<or> std_of vs = PInf
   \<or> (\<exists>v. std_of vs = Fin v \<and> 0 \<le> v \<and> v\<^sup>2 \<le> float_max)"
proof (cases "length vs \<le> 1")
  case True
  then show ?thesis by (simp add: std_of_def)
next
  case False
  let ?m = "sum_list vs / real (length vs)"
  let ?ss = "sum_list (map (\<lambda>v. (v - ?m)\<^sup>2) vs)"
  show ?thesis
  proof (cases "float_max < ?ss")
    case True
    with False show ?thesis by (simp add: std_of_def Let_def)
  next
    case le: False
    have n: "1 \<le> real (length vs - 1)" using False by simp
    have nn: "0 \<le> ?ss" by (intro sum_list_nonneg) auto
    have q: "0 \<le> ?ss / real (length vs - 1)" using nn by (intro divide_nonneg_nonneg) auto
    have "?ss / real (length vs - 1) \<le> ?ss / 1"
      using nn n by (intro divide_left_mono) auto
    with le have b: "?ss / real (length vs - 1) \<le> float_max" by simp
    have e: "std_of vs = Fin (sqrt (?ss / real (length vs - 1)))"
      using False le by (simp add: std_of_def Let_def)
    have "(sqrt (?ss / real (length vs - 1)))\<^sup>2 = ?ss / real (length vs - 1)"
      using q by (rule real_sqrt_pow2)
    with b have "(sqrt (?ss / real (length vs - 1)))\<^sup>2 \<le> float_max" by simp
    moreover have "0 \<le> sqrt (?ss / real (length vs - 1))" using q by (simp only: real_sqrt_ge_zero)
    ultimately show ?thesis using e by blast
  qed
qed

lemma latest_vol_value:
  assumes "latest_vol cfg soxx_close = Inr vol"
  shows "vol = NaN \<or> vol = PInf \<or> (\<exists>v. vol = Fin v \<and> 0 \<le> v \<and> v\<^sup>2 \<le> float_max)"
proof -
  let ?r = "pct_change 1 soxx_close"
  from assms have "iloc_last (rolling (vol_target_window cfg) std_of ?r) = Inr vol"
    by (simp add: latest_vol_def rolling_std_def)
  then have v: "vol = (case finite_window (vol_target_window cfg) ?r of
                         None \<Rightarrow> NaN | Some vs \<Rightarrow> std_of vs)"
    unfolding iloc_last_rolling by (simp split: if_splits)
  show ?thesis
  proof (cases "finite_window (vol_target_window cfg) ?r")
    case None
    with v show ?thesis by simp
  next
    case (Some vs)
    with v std_of_cases [of vs] show ?thesis by simp
  qed
qed

lemma annualized_finite:
  assumes "0 \<le> v" "v\<^sup>2 \<le> float_max"
  shows "annualized (Fin v) = Fin (v * sqrt 252)"
proof -
  have "v * sqrt 252 \<le> v * 16"
    using sqrt_252_bounds(2) assms(1) by (rule mult_left_mono)
  then have a: "v * sqrt 252 \<le> 16 * v" by simp
  have "16 * v \<le> float_max"
  proof (cases "v \<le> 16")
    case True
    then have "16 * v \<le> 256" by simp
    with float_max_ge_256 show ?thesis by linarith
  next
    case False
    then have "16 * v \<le> v * v" by (simp add: mult_right_mono)
    with assms(2) show ?thesis by (simp add: power2_eq_square)
  qed
  with a have u: "v * sqrt 252 \<le> float_max" by linarith
  have "0 \<le> v * sqrt 252" using assms(1) by simp
  moreover have "0 \<le> float_max" using float_max_ge_256 by linarith
  ultimately have "\<not> v * sqrt 252 < - float_max" by linarith
  with u show ?thesis by (simp add: annualized_def to_float_def)
qed

lemma annualized_infinite: "annualized PInf = PInf"
  by (simp add: annualized_def inf_of_def)

lemma clip_in_range: "lo \<le> hi \<Longrightarrow> lo \<le> clip x lo hi \<and> clip x lo hi \<le> hi"
  by (auto simp: clip_def)

lemma constant_vol: "latest_vol Initialize constant_prices = Inr (Fin 0)"
proof -
  have "latest_vol Initialize constant_prices
        = Inr (std_of [0, 0, 0, 0, 0, 0, 0, 0, 0, 0, 0, 0, 0, 0, 0, - 0, 0, - 0, 0, - 0])"
    by (rule latest_vol_returns [OF constant_returns]) (simp add: Initialize_def)
  moreover have "2 * ((0::real)\<^sup>2 + 0\<^sup>2 + 0\<^sup>2) \<le> float_max"
    using float_max_ge_256 by simp
  ultimately show ?thesis by (simp only: three_moves_std) simp
qed

lemma on_target_vol: "latest_vol Initialize on_target_prices = Inr (Fin (sqrt (1 / 25200)))"
proof -
  have "latest_vol Initialize on_target_prices
        = Inr (std_of [0, 0, 0, 0, 0, 0, 0, 0, 0, 0, 0, 0, 0, 0,
                    2 / 105, - (2 / 105), 1 / 280, - (1 / 280), 1 / 840, - (1 / 840)])"
    by (rule latest_vol_returns [OF on_target_returns]) (simp add: Initialize_def)
  moreover have "2 * ((2 / 105 :: real)\<^sup>2 + (1 / 280)\<^sup>2 + (1 / 840)\<^sup>2) \<le> float_max"
    using float_max_ge_256 by (simp add: power2_eq_square)
  moreover have "2 * ((2 / 105 :: real)\<^sup>2 + (1 / 280)\<^sup>2 + (1 / 840)\<^sup>2) / 19 = 1 / 25200"
    by (simp add: power2_eq_square)
  ultimately show ?thesis by (simp only: three_moves_std)
qed

lemma high_vol: "latest_vol Initialize high_vol_prices = Inr (Fin (1 / 5))"
proof -
  have "latest_vol Initialize high_vol_prices
        = Inr (std_of [0, 0, 0, 0, 0, 0, 0, 0, 0, 0, 0, 0, 0, 0,
                    6 / 10, - (6 / 10), 1 / 10, - (1 / 10), 1 / 10, - (1 / 10)])"
    by (rule latest_vol_returns [OF high_vol_returns]) (simp add: Initialize_def)
  moreover have "2 * ((6 / 10 :: real)\<^sup>2 + (1 / 10)\<^sup>2 + (1 / 10)\<^sup>2) \<le> float_max"
    using float_max_ge_256 by (simp add: power2_eq_square)
  moreover have "2 * ((6 / 10 :: real)\<^sup>2 + (1 / 10)\<^sup>2 + (1 / 10)\<^sup>2) / 19 = (1 / 5)\<^sup>2"
    by (simp add: power2_eq_square)
  ultimately show ?thesis by (simp only: three_moves_std real_sqrt_abs) simp
qed

lemma low_vol: "latest_vol Initialize low_vol_prices = Inr (Fin (1 / 500))"
proof -
  have "latest_vol Initialize low_vol_prices
        = Inr (std_of [0, 0, 0, 0, 0, 0, 0, 0, 0, 0, 0, 0, 0, 0,
                    6 / 1000, - (6 / 1000), 1 / 1000, - (1 / 1000), 1 / 1000, - (1 / 1000)])"
    by (rule latest_vol_returns [OF low_vol_returns]) (simp add: Initialize_def)
  moreover have "2 * ((6 / 1000 :: real)\<^sup>2 + (1 / 1000)\<^sup>2 + (1 / 1000)\<^sup>2) \<le> float_max"
    using float_max_ge_256 by (simp add: power2_eq_square)
  moreover have "2 * ((6 / 1000 :: real)\<^sup>2 + (1 / 1000)\<^sup>2 + (1 / 1000)\<^sup>2) / 19
                 = (1 / 500)\<^sup>2"
    by (simp add: power2_eq_square)
  ultimately show ?thesis by (simp only: three_moves_std real_sqrt_abs) simp
qed

lemma on_target_annualized: "sqrt (1 / 25200) * sqrt 252 = 1 / 10"
proof -
  have "sqrt (1 / 25200) * sqrt 252 = sqrt ((1 / 25200) * 252)"
    by (simp only: real_sqrt_mult)
  also have "\<dots> = sqrt ((1 / 10)\<^sup>2)" by (simp add: power2_eq_square)
  also have "\<dots> = 1 / 10" by simp
  finally show ?thesis .
qed

lemma on_target_above_epsilon: "1 / 10 ^ 8 \<le> sqrt (1 / 25200)"
  by (rule real_le_rsqrt) (simp add: power2_eq_square)

lemma high_vol_clipped:
  "clip (target_annual_vol Initialize / max (1 / 5 * sqrt 252) (1 / 10 ^ 3))
     (min_gross Initialize) (max_gross Initialize) = min_gross Initialize"
proof -
  have m: "max (1 / 5 * sqrt 252) (1 / 10 ^ 3) = sqrt 252 / 5"
    using sqrt_252_bounds(1) by (simp add: max_def)
  have "(1 / 10) / (sqrt 252 / 5) \<le> (1 / 10) / (15 / 5)"
    using sqrt_252_bounds(1) by (intro divide_left_mono) auto
  then have "(1 / 10) / (sqrt 252 / 5) \<le> 20 / 100" by simp
  then show ?thesis unfolding m by (simp add: clip_def Initialize_def max_def)
qed

lemma low_vol_clipped:
  "clip (target_annual_vol Initialize / max (1 / 500 * sqrt 252) (1 / 10 ^ 3))
     (min_gross Initialize) (max_gross Initialize) = max_gross Initialize"
proof -
  have m: "max (1 / 500 * sqrt 252) (1 / 10 ^ 3) = sqrt 252 / 500"
    using sqrt_252_bounds(1) by (simp add: max_def)
  have "(1 / 10) / (16 / 500) \<le> (1 / 10) / (sqrt 252 / 500)"
    using sqrt_252_bounds by (intro divide_left_mono) auto
  then have "130 / 100 \<le> (1 / 10) / (sqrt 252 / 500)" by simp
  then show ?thesis unfolding m using sqrt_252_bounds(2)
    by (auto simp: clip_def Initialize_def max_def min_def)
qed

lemma finite_items_keys: "fst ` set (finite_items xs) \<subseteq> fst ` set xs"
  by (induction xs rule: finite_items.induct) auto

lemma alpha_scores_keys:
  assumes "alpha_scores cfg tbl = Inr score"
  shows "fst ` set score \<subseteq> set (columns tbl)"
proof -
  from assms obtain vals where "score = finite_items (zip (columns tbl) vals)"
    by (auto simp: alpha_scores_def Let_def split: if_splits)
  then have "fst ` set score \<subseteq> fst ` set (zip (columns tbl) vals)"
    using finite_items_keys by simp
  also have "\<dots> \<subseteq> set (columns tbl)" by (auto dest: set_zip_leftD)
  finally show ?thesis .
qed

lemma tradeable_scores_cong:
  assumes "\<forall>s \<in> fst ` set score. t1 s = t2 s"
  shows "tradeable_scores t1 score = tradeable_scores t2 score"
  unfolding tradeable_scores_def using assms by (intro filter_cong) auto

lemma build_targets_cong:
  assumes "\<forall>s \<in> fst ` set score. t1 s = t2 s"
  shows "build_targets cfg t1 score regime gross = build_targets cfg t2 score regime gross"
  unfolding build_targets_def tradeable_scores_cong [OF assms] ..

lemma nsmallest_keys: "set (map fst (nsmallest k score)) \<subseteq> fst ` set score"
  unfolding nsmallest_def using set_take_subset [of "nat k" "sort_key snd score"] by auto

lemma nlargest_keys: "set (map fst (nlargest k score)) \<subseteq> fst ` set score"
  unfolding nlargest_def
  using set_take_subset [of "nat k" "sort_key (\<lambda>p. - snd p) score"] by auto

lemma build_targets_keys:
  assumes "build_targets cfg t score regime gross = Inr target"
  shows "fst ` set target \<subseteq> fst ` set score"
proof -
  let ?sc = "tradeable_scores t score"
  let ?k = "selection_size cfg regime (int (length ?sc))"
  have sub: "fst ` set ?sc \<subseteq> fst ` set score" by (auto simp: tradeable_scores_def)
  have l: "set (map fst (nlargest ?k ?sc)) \<subseteq> fst ` set score"
    using nlargest_keys [of ?k ?sc] sub by blast
  have s: "set (map fst (nsmallest ?k ?sc)) \<subseteq> fst ` set score"
    using nsmallest_keys [of ?k ?sc] sub by blast
  from build_targets_cases [OF assms] consider "target = []"
    | "long_only_targets cfg ?sc ?k gross = Inr target"
    | "long_short_targets cfg ?sc ?k gross = Inr target"
    | "short_only_targets cfg ?sc ?k gross = Inr target"
    by blast
  then show ?thesis
  proof cases
    case 1
    then show ?thesis by simp
  next
    case 2
    then obtain w where "target = assign (map fst (nlargest ?k ?sc)) w []"
      by (auto simp: long_only_targets_def Let_def split: if_splits)
    then have "set (map fst target) = set (map fst (nlargest ?k ?sc))"
      by (simp only: assign_keys) simp
    with l show ?thesis by simp
  next
    case 3
    then obtain lw sw where "target = assign (map fst (nsmallest ?k ?sc)) sw
        (assign (map fst (nlargest ?k ?sc)) lw [])"
      by (auto simp: long_short_targets_def Let_def split: if_splits)
    then have "set (map fst target)
        = set (map fst (nlargest ?k ?sc)) \<union> set (map fst (nsmallest ?k ?sc))"
      by (simp only: assign_keys) simp
    with l s show ?thesis by simp
  next
    case 4
    then obtain w where "target = assign (map fst (nsmallest ?k ?sc)) w []"
      by (auto simp: short_only_targets_def Let_def split: if_splits)
    then have "set (map fst target) = set (map fst (nsmallest ?k ?sc))"
      by (simp only: assign_keys) simp
    with s show ?thesis by simp
  qed
qed

lemma basket_scores_keys:
  assumes "alpha_scores cfg
             (select_columns close (filter (\<lambda>s. s \<in> set (columns close)) (semis cfg)))
           = Inr score"
  shows "fst ` set score \<subseteq> set (semis cfg)"
  using alpha_scores_keys [OF assms] by (auto simp: select_columns_def)

lemma pipeline_cong:
  assumes "\<forall>s \<in> set (semis cfg). t1 s = t2 s"
  shows "pipeline cfg t1 close = pipeline cfg t2 close"
proof -
  let ?sc = "alpha_scores cfg
               (select_columns close (filter (\<lambda>s. s \<in> set (columns close)) (semis cfg)))"
  have "build_targets cfg t1 score regime gross = build_targets cfg t2 score regime gross"
    if "?sc = Inr score" for score regime gross
    using basket_scores_keys [OF that] assms by (intro build_targets_cong) blast
  then show ?thesis
    unfolding pipeline_def bind_err_def by (auto split: sum.splits)
qed

lemma pipeline_keys:
  assumes "pipeline cfg t close = Inr (regime, gross, target)"
  shows "fst ` set target \<subseteq> set (semis cfg)"
proof -
  from assms obtain score r g where
    s: "alpha_scores cfg
          (select_columns close (filter (\<lambda>s. s \<in> set (columns close)) (semis cfg)))
        = Inr score"
    and b: "build_targets cfg t score r g = Inr target"
    unfolding pipeline_def bind_err_def by (auto split: sum.splits)
  from build_targets_keys [OF b] basket_scores_keys [OF s] show ?thesis by blast
qed

lemma apply_targets_cong:
  assumes "\<forall>s \<in> fst ` set target. is_tradeable (securities env1) s
                                   = is_tradeable (securities env2) s"
    and "portfolio_keys env1 = portfolio_keys env2"
    and "\<forall>s \<in> set (portfolio_keys env1). invested env1 s = invested env2 s"
  shows "apply_targets env1 regime gross target = apply_targets env2 regime gross target"
proof -
  have a: "filter (\<lambda>sym. invested env1 sym \<and> sym \<notin> set (map fst target)) (portfolio_keys env1)
         = filter (\<lambda>sym. invested env2 sym \<and> sym \<notin> set (map fst target)) (portfolio_keys env2)"
    unfolding assms(2) [symmetric] using assms(3) by (intro filter_cong) auto
  have b: "filter (\<lambda>(sym, w). is_tradeable (securities env1) sym) target
         = filter (\<lambda>(sym, w). is_tradeable (securities env2) sym) target"
    using assms(1) by (intro filter_cong) auto
  show ?thesis unfolding apply_targets_def by (simp only: a b)
qed

lemma ffill_from_no_nan: "NaN \<notin> set xs \<Longrightarrow> ffill_from p xs = xs"
  by (induction xs arbitrary: p) auto

lemma ffill_no_nan: "NaN \<notin> set xs \<Longrightarrow> ffill xs = xs"
  by (simp add: ffill_def ffill_from_no_nan)

lemma bfill_no_nan: "NaN \<notin> set xs \<Longrightarrow> bfill xs = xs"
  by (simp add: bfill_def ffill_no_nan)

lemma map_columns_fixed:
  assumes "\<And>c. f (column tbl c) = column tbl c"
  shows "map_columns f tbl = tbl"
proof -
  have "map (\<lambda>i. \<lambda>c. f (column tbl c) ! i) [0..<length (rows tbl)] = rows tbl"
  proof (rule nth_equalityI)
    show "length (map (\<lambda>i. \<lambda>c. f (column tbl c) ! i) [0..<length (rows tbl)])
          = length (rows tbl)" by simp
  next
    fix i assume "i < length (map (\<lambda>i. \<lambda>c. f (column tbl c) ! i) [0..<length (rows tbl)])"
    then have i: "i < length (rows tbl)" by simp
    have "f (column tbl c) ! i = (rows tbl ! i) c" for c
      unfolding assms using i by (simp add: column_def)
    then have "(\<lambda>c. f (column tbl c) ! i) = rows tbl ! i"
      by (intro ext)
    with i show "map (\<lambda>i. \<lambda>c. f (column tbl c) ! i) [0..<length (rows tbl)] ! i = rows tbl ! i"
      by simp
  qed
  then show ?thesis by (simp add: map_columns_def)
qed

lemma pct_change_no_nan:
  "NaN \<notin> set xs \<Longrightarrow>
   pct_change p xs
   = map (\<lambda>i. if i < p then NaN else fsub (fdiv (xs ! i) (xs ! (i - p))) (Fin 1))
       [0..<length xs]"
  by (simp add: pct_change_def ffill_no_nan Let_def)

lemma step_nth: "1 \<le> i \<Longrightarrow> i \<le> n \<Longrightarrow> (x # replicate n y) ! i = y"
  by (cases i) auto

lemma step_change_last:
  assumes "1 \<le> n" "a \<noteq> 0" "\<bar>b / a\<bar> \<le> 999"
  shows "last (pct_change n (Fin a # replicate n (Fin b))) = Fin (b / a - 1)"
proof -
  let ?xs = "Fin a # replicate n (Fin b)"
  let ?f = "\<lambda>i. if i < n then NaN else fsub (fdiv (?xs ! i) (?xs ! (i - n))) (Fin 1)"
  have nn: "NaN \<notin> set ?xs" by auto
  have "pct_change n ?xs = map ?f [0..<Suc n]"
    using pct_change_no_nan [OF nn, of n] by simp
  also have "\<dots> = map ?f [0..<n] @ [?f n]" by simp
  finally have "last (pct_change n ?xs) = ?f n" by simp
  moreover have "?xs ! n = Fin b" using assms(1) by (simp add: step_nth)
  moreover have "to_float (b / a) = Fin (b / a)" using assms(3) by (intro to_float_small) simp
  moreover have "\<bar>b / a - 1\<bar> \<le> 1000" using assms(3) by linarith
  then have "to_float (b / a - 1) = Fin (b / a - 1)" by (rule to_float_small)
  ultimately show ?thesis using assms(2) by (simp add: fsub_def)
qed

lemma finite_values_zeros: "finite_values (replicate w (Fin 0)) = Some (replicate w 0)"
  by (induction w) auto

lemma step_returns_window:
  assumes "w + 1 \<le> n" "b \<noteq> 0"
  shows "finite_window w (pct_change 1 (Fin a # replicate n (Fin b))) = Some (replicate w 0)"
proof -
  let ?xs = "Fin a # replicate n (Fin b)"
  let ?f = "\<lambda>i. if i < 1 then NaN else fsub (fdiv (?xs ! i) (?xs ! (i - 1))) (Fin 1)"
  have nn: "NaN \<notin> set ?xs" by auto
  have p: "pct_change 1 ?xs = map ?f [0..<Suc n]"
    using pct_change_no_nan [OF nn, of 1] by simp
  have one: "to_float 1 = Fin 1" by (simp add: to_float_small)
  have zero: "to_float 0 = Fin 0" by (simp add: to_float_small)
  have v: "?f i = Fin 0" if "2 \<le> i" "i \<le> n" for i
  proof -
    have "?xs ! i = Fin b" using that by (simp add: step_nth)
    moreover have "?xs ! (i - 1) = Fin b" using that by (simp add: step_nth)
    ultimately show ?thesis using that assms(2) by (simp add: fsub_def one zero)
  qed
  have "drop (length (pct_change 1 ?xs) - w) (pct_change 1 ?xs)
        = map ?f [Suc n - w..<Suc n]"
    unfolding p by (simp add: drop_map)
  also have "\<dots> = map (\<lambda>i. Fin 0) [Suc n - w..<Suc n]"
    using assms(1) by (intro map_cong refl v) auto
  also have "\<dots> = replicate w (Fin 0)"
  proof -
    have "length [Suc n - w..<Suc n] = w" using assms(1) by (simp only: length_upt)
    then show ?thesis by (simp only: map_replicate_const)
  qed
  finally have d: "drop (length (pct_change 1 ?xs) - w) (pct_change 1 ?xs)
                   = replicate w (Fin 0)" .
  have "\<not> length (pct_change 1 ?xs) < w" unfolding p using assms(1) by simp
  then show ?thesis unfolding finite_window_def by (simp only: if_False d finite_values_zeros)
qed

lemma std_of_zeros: "2 \<le> w \<Longrightarrow> std_of (replicate w 0) = Fin 0"
  using float_max_ge_256 by (simp add: std_of_def Let_def sum_list_replicate)

lemma step_vol_last:
  assumes "w + 1 \<le> n" "2 \<le> w" "b \<noteq> 0"
  shows "last (rolling_std w (pct_change 1 (Fin a # replicate n (Fin b)))) = Fin 0"
proof -
  have ne: "pct_change 1 (Fin a # replicate n (Fin b)) \<noteq> []"
    by (simp add: pct_change_def Let_def ffill_def)
  show ?thesis
    unfolding rolling_std_def last_rolling [OF ne] step_returns_window [OF assms(1,3)]
    by (simp only: option.case std_of_zeros [OF assms(2)])
qed

lemma trend_later_bounds: "96 \<le> trend_later s" "trend_later s \<le> 104"
  by (simp_all add: trend_later_def)

lemma trend_column: "column trend_table c = Fin 100 # replicate 126 (Fin (trend_later c))"
  by (simp add: column_def trend_table_def)

lemma trend_filled: "map_columns bfill (map_columns ffill trend_table) = trend_table"
proof -
  have f: "map_columns ffill trend_table = trend_table"
    by (rule map_columns_fixed) (simp add: trend_column ffill_no_nan)
  have b: "map_columns bfill trend_table = trend_table"
    by (rule map_columns_fixed) (simp add: trend_column bfill_no_nan)
  show ?thesis by (simp only: f b)
qed

lemma safe_ratio_length: "length (safe_ratio a b) \<le> length a"
proof -
  have "length (safe_ratio a b) \<le> length (zip a b)"
    unfolding safe_ratio_def by (rule order_trans [OF length_filter_le]) simp
  then show ?thesis by simp
qed

lemma trend_regime: "compute_regime_score Initialize trend_table = Inr 0"
proof -
  have c: "\<not> (\<exists>sym \<in> set [soxx Initialize, spy Initialize, ief Initialize, shy Initialize].
              sym \<notin> set (columns trend_table))"
    by (simp add: Initialize_def trend_table_def)
  have r: "rows trend_table \<noteq> []" by (simp add: trend_table_def)
  have w: "finite_window (regime_ma Initialize) (column trend_table (soxx Initialize)) = None"
    by (simp add: trend_column finite_window_def Initialize_def)
  have l: "length (safe_ratio (column trend_table a) (column trend_table b))
           \<le> regime_ma Initialize" for a b
    using safe_ratio_length [of "column trend_table a" "column trend_table b"]
    by (simp add: trend_column Initialize_def)
  show ?thesis
    unfolding regime_score_present [OF c r] w option.case ratio_indicator_short [OF l]
    by (simp add: bind_err_def fgt_NaN_right)
qed

lemma trend_scale: "vol_target_scale Initialize (column trend_table c) = Inr 1"
proof -
  have b: "trend_later c \<noteq> 0" using trend_later_bounds(1) [of c] by simp
  have w: "finite_window (vol_target_window Initialize)
             (pct_change 1 (Fin 100 # replicate 126 (Fin (trend_later c))))
           = Some (replicate (vol_target_window Initialize) 0)"
    by (rule step_returns_window [OF _ b]) (simp add: Initialize_def)
  have s: "std_of (replicate (vol_target_window Initialize) 0) = Fin 0"
    by (rule std_of_zeros) (simp add: Initialize_def)
  have ne: "pct_change 1 (Fin 100 # replicate 126 (Fin (trend_later c))) \<noteq> []"
    by (simp add: pct_change_def Let_def ffill_def)
  have "latest_vol Initialize (column trend_table c) = Inr (Fin 0)"
    unfolding latest_vol_def rolling_std_def iloc_last_rolling trend_column w option.case s
    using ne by simp
  then show ?thesis
    by (simp add: vol_target_scale_def bind_err_def scale_of_vol_def flt_less_def)
qed

lemma trend_momentum:
  "last (pct_change (mom_lookback Initialize) (column trend_table c))
   = Fin (trend_later c / 100 - 1)"
proof -
  have m: "mom_lookback Initialize = 126" by (simp add: Initialize_def)
  have "\<bar>trend_later c / 100\<bar> \<le> 999" using trend_later_bounds [of c] by simp
  then show ?thesis unfolding m trend_column by (intro step_change_last) simp_all
qed

lemma trend_volatility:
  "last (rolling_std (vol_score_window Initialize) (pct_change 1 (column trend_table c)))
   = Fin 0"
proof -
  have b: "trend_later c \<noteq> 0" using trend_later_bounds(1) [of c] by simp
  show ?thesis unfolding trend_column
    by (rule step_vol_last [OF _ _ b]) (simp_all add: Initialize_def)
qed

lemma sqrt_2500: "sqrt (1 / 2500) = 1 / 50"
  by (rule real_sqrt_unique) (simp_all add: power2_eq_square)

lemma trend_mom_z:
  "zscore (map Fin [1 / 25, - (1 / 25), 3 / 100, - (3 / 100), 1 / 50, - (1 / 50),
                    1 / 100, - (1 / 100), 0, 0, 0, 0, 0, 0, 0, 0])
   = map Fin [2, - 2, 3 / 2, - (3 / 2), 1, - 1, 1 / 2, - (1 / 2), 0, 0, 0, 0, 0, 0, 0, 0]"
proof -
  let ?x = "map Fin [1 / 25, - (1 / 25), 3 / 100, - (3 / 100), 1 / 50, - (1 / 50),
                     1 / 100, - (1 / 100), 0, 0, 0, 0, 0, 0, 0, 0]"
  have mu: "nanmean ?x = Fin 0"
    by (simp add: nanmean_def fsum_def to_float_small)
  have "nanstd ?x = Fin (sqrt (1 / 2500))"
    by (simp add: nanstd_def fsum_def fsub_def Let_def to_float_small real_sqrt_divide)
  then have sd: "nanstd ?x = Fin (1 / 50)" by (simp only: sqrt_2500)
  show ?thesis
    unfolding zscore_def Let_def mu sd
    by (simp add: flt_less_def fsub_def to_float_small)
qed

lemma trend_vol_z:
  "zscore (map Fin [0, 0, 0, 0, 0, 0, 0, 0, 0, 0, 0, 0, 0, 0, 0, 0])
   = map Fin [0, 0, 0, 0, 0, 0, 0, 0, 0, 0, 0, 0, 0, 0, 0, 0]"
proof -
  let ?x = "map Fin [0, 0, 0, 0, 0, 0, 0, 0, 0, 0, 0, 0, 0, 0, 0, 0 :: real]"
  have sd: "nanstd ?x = Fin 0"
    by (simp add: nanstd_def fsum_def fsub_def Let_def to_float_small)
  show ?thesis
    unfolding zscore_def Let_def sd
    by (simp add: flt_less_def to_float_small)
qed

lemma trend_alpha:
  "alpha_scores Initialize
     (select_columns trend_table
        (filter (\<lambda>s. s \<in> set (columns trend_table)) (semis Initialize)))
   = Inr trend_scores"
proof -
  have f: "filter (\<lambda>s. s \<in> set (columns trend_table)) (semis Initialize) = semis Initialize"
    by (simp add: trend_table_def)
  have r: "rows (select_columns trend_table (semis Initialize)) \<noteq> []"
    by (simp add: select_columns_def trend_table_def)
  have c: "column (select_columns trend_table (semis Initialize)) s = column trend_table s"
    for s by (simp add: column_def select_columns_def)
  have cols: "columns (select_columns trend_table (semis Initialize)) = semis Initialize"
    by (simp add: select_columns_def)
  have mom: "map (\<lambda>c. Fin (trend_later c / 100 - 1)) (semis Initialize)
             = map Fin [1 / 25, - (1 / 25), 3 / 100, - (3 / 100), 1 / 50, - (1 / 50),
                        1 / 100, - (1 / 100), 0, 0, 0, 0, 0, 0, 0, 0]"
    by (simp add: Initialize_def trend_later_def)
  have vol: "map (\<lambda>c. Fin 0) (semis Initialize)
             = map Fin [0, 0, 0, 0, 0, 0, 0, 0, 0, 0, 0, 0, 0, 0, 0, 0]"
    by (simp add: Initialize_def)
  show ?thesis
    unfolding f alpha_scores_def Let_def c cols trend_momentum trend_volatility mom vol
      trend_mom_z trend_vol_z
    using r by (simp add: Initialize_def fsub_def to_float_small trend_scores_def)
qed

lemma trend_build_all:
  "build_targets Initialize (\<lambda>s. True) trend_scores 0 (9 / 10) = Inr trend_targets"
proof -
  have n: "length trend_scores = 16" by (simp add: trend_scores_def)
  have k: "selection_size Initialize 0 16 = 8"
    by (simp add: selection_size_def int_of_fraction_def Initialize_def)
  have s: "map fst (nsmallest 8 trend_scores)
           = [''AMD'', ''QCOM'', ''INTC'', ''ADI'', ''ON'', ''MCHP'', ''NXPI'', ''MRVL'']"
    by (simp add: nsmallest_def trend_scores_def)
  have so: "short_only_targets Initialize trend_scores 8 (9 / 10) = Inr trend_targets"
    unfolding short_only_targets_def Let_def s
    by (simp add: assign_def clip_def Initialize_def trend_targets_def)
  have "build_targets Initialize (\<lambda>s. True) trend_scores 0 (9 / 10)
        = short_only_targets Initialize trend_scores 8 (9 / 10)"
    using n k by (simp add: build_targets_def tradeable_scores_def Let_def Initialize_def)
  with so show ?thesis by simp
qed

lemma trend_build:
  assumes "\<forall>s \<in> set (semis Initialize). t s"
  shows "build_targets Initialize t trend_scores 0 (9 / 10) = Inr trend_targets"
proof -
  have "fst ` set trend_scores \<subseteq> set (semis Initialize)"
    by (simp add: trend_scores_def Initialize_def)
  with assms have "\<forall>s \<in> fst ` set trend_scores. t s = (\<lambda>s. True) s" by blast
  from build_targets_cong [OF this] trend_build_all show ?thesis by simp
qed

lemma trend_pipeline:
  assumes "\<forall>s \<in> set (semis Initialize). t s"
  shows "pipeline Initialize t trend_table = Inr (0, 9 / 10, trend_targets)"
proof -
  have g: "get_column trend_table (soxx Initialize)
           = Inr (column trend_table (soxx Initialize))"
    by (simp add: get_column_def trend_table_def Initialize_def)
  have b: "gross_budget Initialize 0 1 = 9 / 10"
    by (simp add: gross_budget_def base_gross_def clip_def Initialize_def)
  show ?thesis
    unfolding pipeline_def
    by (simp only: trend_regime g trend_scale trend_alpha b trend_build [OF assms]
        bind_err_def sum.case)
qed

lemma trend_env_tradeable: "is_tradeable (securities trend_env) s"
  by (simp add: is_tradeable_def trend_env_def)

lemma trend_env_later_tradeable:
  "s \<in> set (semis Initialize) \<Longrightarrow> is_tradeable (securities trend_env_later) s"
  by (auto simp: is_tradeable_def trend_env_later_def Initialize_def)

lemma trend_actions:
  "actions (Rebalance Initialize trend_env \<lparr>last_rebalance_date = None\<rparr>)
   = [Liquidate ''NVDA'',
      SetHoldings ''AMD'' (- (9 / 80)), SetHoldings ''QCOM'' (- (9 / 80)),
      SetHoldings ''INTC'' (- (9 / 80)), SetHoldings ''ADI'' (- (9 / 80)),
      SetHoldings ''ON'' (- (9 / 80)), SetHoldings ''MCHP'' (- (9 / 80)),
      SetHoldings ''NXPI'' (- (9 / 80)), SetHoldings ''MRVL'' (- (9 / 80)),
      Log (RebalanceDone 0 (9 / 10) 8)]"
proof -
  have p: "pipeline Initialize (is_tradeable (securities trend_env)) trend_table
           = Inr (0, 9 / 10, trend_targets)"
    by (rule trend_pipeline) (simp add: trend_env_tradeable)
  have f: "fetched trend_env = HistTable trend_table" by (simp add: trend_env_def)
  have a: "apply_targets trend_env 0 (9 / 10) trend_targets
           = [Liquidate ''NVDA'',
              SetHoldings ''AMD'' (- (9 / 80)), SetHoldings ''QCOM'' (- (9 / 80)),
              SetHoldings ''INTC'' (- (9 / 80)), SetHoldings ''ADI'' (- (9 / 80)),
              SetHoldings ''ON'' (- (9 / 80)), SetHoldings ''MCHP'' (- (9 / 80)),
              SetHoldings ''NXPI'' (- (9 / 80)), SetHoldings ''MRVL'' (- (9 / 80)),
              Log (RebalanceDone 0 (9 / 10) 8)]"
    unfolding apply_targets_def
    by (simp add: trend_env_tradeable) (simp add: trend_env_def trend_targets_def)
  have w: "\<not> is_warming_up trend_env"
    "last_rebalance_date \<lparr>last_rebalance_date = None\<rparr> \<noteq> Some (time_date trend_env)"
    by (simp_all add: trend_env_def)
  show ?thesis
    unfolding Rebalance_def Let_def using w
    by (simp add: f trend_filled p a)
qed

subsection \<open>C1: range of the gross budget\<close>

text \<open>
  C1 as stated: for every regime and every volatility scale in \<open>[min_gross, max_gross]\<close>
  the gross budget is at least \<open>min_gross\<close>. It fails with the parameters of
  \<open>Initialize\<close>: in the neutral regime with scale \<open>0.20\<close> the product is \<open>0.16\<close>,
  which the clip to \<open>[0.0, max_gross]\<close> leaves unchanged, below \<open>min_gross = 0.20\<close>.
\<close>

theorem gross_budget_below_min_gross:
  "min_gross Initialize \<le> 20 / 100 \<and> 20 / 100 \<le> max_gross Initialize
   \<and> gross_budget Initialize 1 (20 / 100) = 16 / 100
   \<and> gross_budget Initialize 1 (20 / 100) < min_gross Initialize"
  by (simp add: gross_budget_def base_gross_def clip_def Initialize_def)

text \<open>
  C1, amended: the gross budget lies in \<open>[0, max_gross]\<close>, for every regime and every
  volatility scale, as soon as \<open>max_gross\<close> is not negative; and it is at least
  \<open>min_gross\<close> whenever the product of preset and scale is.
\<close>

theorem gross_budget_range:
  assumes "0 \<le> max_gross cfg"
  shows "0 \<le> gross_budget cfg regime gross_scale
         \<and> gross_budget cfg regime gross_scale \<le> max_gross cfg
         \<and> (min_gross cfg \<le> base_gross cfg regime * gross_scale \<and> min_gross cfg \<le> max_gross cfg
              \<longrightarrow> min_gross cfg \<le> gross_budget cfg regime gross_scale)"
  using assms by (auto simp: gross_budget_def clip_def)

theorem gross_budget_range_witness:
  "0 \<le> max_gross Initialize
   \<and> 0 \<le> gross_budget Initialize 3 (130 / 100)
   \<and> gross_budget Initialize 3 (130 / 100) \<le> max_gross Initialize
   \<and> min_gross Initialize \<le> base_gross Initialize 3 * (130 / 100)
   \<and> min_gross Initialize \<le> max_gross Initialize
   \<and> min_gross Initialize \<le> gross_budget Initialize 3 (130 / 100)
   \<and> gross_budget Initialize 3 (130 / 100) = 130 / 100"
proof -
  have h: "0 \<le> max_gross Initialize" by (simp add: Initialize_def)
  have v: "gross_budget Initialize 3 (130 / 100) = 130 / 100"
    by (simp add: gross_budget_def base_gross_def clip_def Initialize_def)
  have p: "min_gross Initialize \<le> base_gross Initialize 3 * (130 / 100)
           \<and> min_gross Initialize \<le> max_gross Initialize"
    by (simp add: base_gross_def Initialize_def)
  from gross_budget_range [OF h, of 3 "130 / 100"] h v p show ?thesis by simp
qed

subsection \<open>C3: the per-name cap\<close>

text \<open>
  C3: every weight of the map returned by the portfolio constructor is at most
  \<open>max_weight_per_name\<close> in absolute value, for every score map, every regime and every
  gross budget (the cap itself being non-negative, as it is in \<open>Initialize\<close>).
\<close>

theorem build_targets_per_name_cap:
  assumes "0 \<le> max_weight_per_name cfg"
    and "build_targets cfg tradeable score regime gross = Inr target"
    and "(s, w) \<in> set target"
  shows "\<bar>w\<bar> \<le> max_weight_per_name cfg"
proof -
  from assms(3) have w: "w \<in> set (map snd target)" by force
  from assms(3) have ne: "target \<noteq> []" by auto
  from build_targets_cases [OF assms(2)] ne
    long_only_cap [OF assms(1) _ w] long_short_cap [OF assms(1) _ w]
    short_only_cap [OF assms(1) _ w]
  show ?thesis by blast
qed

theorem build_targets_per_name_cap_witness:
  "0 \<le> max_weight_per_name Initialize
   \<and> build_targets Initialize (\<lambda>s. True) example_scores 2 1
       = Inr [(''NVDA'', 12 / 100), (''AVGO'', 12 / 100), (''AMD'', 12 / 100), (''MU'', 12 / 100),
              (''INTC'', - (12 / 100)), (''ON'', - (12 / 100)), (''QCOM'', - (12 / 100)),
              (''ADI'', - (12 / 100))]
   \<and> \<bar>- (12 / 100)\<bar> \<le> max_weight_per_name Initialize"
proof -
  have c: "0 \<le> max_weight_per_name Initialize" by (simp add: Initialize_def)
  have m: "(''ADI'', - (12 / 100)) \<in> set [(''NVDA'', 12 / 100), (''AVGO'', 12 / 100),
              (''AMD'', 12 / 100), (''MU'', 12 / 100),
              (''INTC'', - (12 / 100)), (''ON'', - (12 / 100)), (''QCOM'', - (12 / 100)),
              (''ADI'', - (12 / 100 :: real))]"
    by simp
  from build_targets_per_name_cap [OF c example_mixed_targets m] c example_mixed_targets
  show ?thesis by simp
qed

subsection \<open>C4: the universe floor\<close>

text \<open>
  C4: when fewer than \<open>2 * min_names_each_side\<close> instruments remain after the score map
  is restricted to the tradable ones, the constructor returns the empty map, whatever the
  regime and the gross budget.
\<close>

theorem build_targets_universe_floor:
  assumes "int (length (tradeable_scores tradeable score)) < 2 * min_names_each_side cfg"
  shows "build_targets cfg tradeable score regime gross = Inr []"
  using assms by (simp add: build_targets_def Let_def)

theorem build_targets_universe_floor_witness:
  "int (length (tradeable_scores (\<lambda>s. s \<notin> {''NVDA'', ''AMD'', ''AVGO''}) example_scores))
     < 2 * min_names_each_side Initialize
   \<and> build_targets Initialize (\<lambda>s. s \<notin> {''NVDA'', ''AMD'', ''AVGO''}) example_scores 3 1
       = Inr []"
proof -
  have h: "int (length (tradeable_scores (\<lambda>s. s \<notin> {''NVDA'', ''AMD'', ''AVGO''})
             example_scores)) < 2 * min_names_each_side Initialize"
    by (simp add: tradeable_scores_def example_scores_def Initialize_def)
  from build_targets_universe_floor [OF h] h show ?thesis by simp
qed

subsection \<open>C6: the bear scenario\<close>

text \<open>
  C6: with ten tradable instruments, regime 0, gross budget 0.8 and the parameters of
  \<open>Initialize\<close> (cap 0.12, four names at least on a side), the constructor selects
  \<open>k = max(4, floor(0.50 * 10)) = 5\<close> instruments, the five lowest scores, gives each
  \<open>clip(-0.8 / 5, -0.12, 0) = -0.12\<close>, and returns a map of exactly five entries.
\<close>

theorem bear_scenario:
  assumes len: "length score = 10"
    and dist: "distinct (map fst score)"
    and tr: "\<forall>p \<in> set score. tradeable (fst p)"
  shows "selection_size Initialize 0 (int (length (tradeable_scores tradeable score))) = 5
     \<and> build_targets Initialize tradeable score 0 (8 / 10)
         = Inr (map (\<lambda>p. (fst p, - (12 / 100))) (take 5 (sort_key snd score)))
     \<and> length (map (\<lambda>p. (fst p, - (12 / 100) :: real)) (take 5 (sort_key snd score))) = 5
     \<and> clip (- (8 / 10) / 5) (- (12 / 100)) 0 = - (12 / 100)
     \<and> (\<forall>p \<in> set (take 5 (sort_key snd score)). \<forall>q \<in> set (drop 5 (sort_key snd score)).
           snd p \<le> snd q)"
proof -
  have ts: "tradeable_scores tradeable score = score"
    using tr by (simp add: tradeable_scores_def)
  have k: "selection_size Initialize 0 (int (length score)) = 5"
    using len by (simp add: selection_size_def int_of_fraction_def Initialize_def)
  let ?shorts = "map fst (nsmallest 5 score)"
  have sl: "length ?shorts = 5" using len by (simp add: nsmallest_length)
  then have ne: "?shorts \<noteq> []" by auto
  have d: "distinct ?shorts" using dist by (rule nsmallest_distinct)
  have c: "clip (- (8 / 10) / 5) (- (12 / 100)) 0 = - (12 / 100)"
    by (simp add: clip_def)
  have so: "short_only_targets Initialize score 5 (8 / 10)
            = Inr (map (\<lambda>s. (s, - (12 / 100))) ?shorts)"
    using ne sl c assign_empty_distinct [OF d]
    by (simp add: short_only_targets_def Let_def Initialize_def)
  have bt: "build_targets Initialize tradeable score 0 (8 / 10)
            = short_only_targets Initialize score 5 (8 / 10)"
    using len ts k by (simp add: build_targets_def Let_def Initialize_def)
  have m: "map (\<lambda>s. (s, - (12 / 100) :: real)) ?shorts
           = map (\<lambda>p. (fst p, - (12 / 100))) (take 5 (sort_key snd score))"
    by (simp add: nsmallest_def comp_def)
  have l5: "length (take 5 (sort_key snd score)) = 5" using len by simp
  show ?thesis using ts k bt so m c l5 sorted_take_drop_le [of _ 5 score] by simp
qed

theorem bear_scenario_witness:
  "length example_scores = 10 \<and> distinct (map fst example_scores)
   \<and> build_targets Initialize (\<lambda>s. True) example_scores 0 (8 / 10)
       = Inr [(''INTC'', - (12 / 100)), (''ON'', - (12 / 100)), (''QCOM'', - (12 / 100)),
              (''ADI'', - (12 / 100)), (''TXN'', - (12 / 100))]"
proof -
  have l: "length example_scores = 10" by (simp add: example_scores_def)
  have d: "distinct (map fst example_scores)" by (simp add: example_scores_def)
  have t: "\<forall>p \<in> set example_scores. (\<lambda>s. True) (fst p)" by simp
  have s: "take 5 (sort_key snd example_scores)
           = [(''INTC'', - 2), (''ON'', - 3 / 2), (''QCOM'', - 1), (''ADI'', - 1 / 2), (''TXN'', 0)]"
    by (simp add: example_scores_def)
  from bear_scenario [OF l d t] s l d show ?thesis by simp
qed

subsection \<open>C9: the side budgets in the mixed and neutral regimes\<close>



subsection \<open>C10: an instrument selected on both sides\<close>

text \<open>
  C10: in regimes 2 and 1, an instrument that is in the top-k selection and in the
  bottom-k selection (all scores equal, for instance) has the short weight in the
  returned map, the shorts being written after the longs, and the map has fewer than
  \<open>2 * k\<close> entries.
\<close>

theorem overlap_receives_short_weight:
  assumes "regime = 2 \<or> regime = 1"
    and "2 * min_names_each_side cfg \<le> int (length (tradeable_scores tradeable score))"
    and "s \<in> set (map fst (nlargest
           (selection_size cfg regime (int (length (tradeable_scores tradeable score))))
           (tradeable_scores tradeable score)))"
    and "s \<in> set (map fst (nsmallest
           (selection_size cfg regime (int (length (tradeable_scores tradeable score))))
           (tradeable_scores tradeable score)))"
  shows "\<exists>target. build_targets cfg tradeable score regime gross = Inr target
           \<and> map_of target s
               = Some (clip (short_pre_cap gross (map fst (nsmallest
                    (selection_size cfg regime (int (length (tradeable_scores tradeable score))))
                    (tradeable_scores tradeable score))))
                  (- max_weight_per_name cfg) 0)
           \<and> int (length target)
               < 2 * selection_size cfg regime (int (length (tradeable_scores tradeable score)))"
proof -
  let ?sc = "tradeable_scores tradeable score"
  let ?k = "selection_size cfg regime (int (length ?sc))"
  let ?longs = "map fst (nlargest ?k ?sc)"
  let ?shorts = "map fst (nsmallest ?k ?sc)"
  let ?lw = "clip (long_pre_cap gross ?longs) 0 (max_weight_per_name cfg)"
  let ?sw = "clip (short_pre_cap gross ?shorts) (- max_weight_per_name cfg) 0"
  let ?t = "assign ?shorts ?sw (assign ?longs ?lw [])"
  from assms(3) have nl: "?longs \<noteq> []" by auto
  from assms(4) have ns: "?shorts \<noteq> []" by auto
  have b: "build_targets cfg tradeable score regime gross = Inr ?t"
    using build_targets_two_sided [OF assms(1,2)] long_short_targets_shape [OF nl ns]
    by simp
  have m: "map_of ?t s = Some ?sw" using assms(4) by (simp add: assign_map_of)
  have "length ?t < length ?longs + length ?shorts"
    using assms(3,4) by (rule two_assign_length)
  moreover have "length ?longs \<le> nat ?k" "length ?shorts \<le> nat ?k"
    by (simp_all add: nlargest_length nsmallest_length)
  moreover have "0 < nat ?k" using nl by (auto simp: nlargest_def)
  ultimately have "int (length ?t) < 2 * ?k" by linarith
  with b m show ?thesis by blast
qed

theorem overlap_receives_short_weight_witness:
  "2 * min_names_each_side Initialize \<le> int (length (tradeable_scores (\<lambda>s. True) tied_scores))
   \<and> selection_size Initialize 2 (int (length (tradeable_scores (\<lambda>s. True) tied_scores))) = 4
   \<and> ''NVDA'' \<in> set (map fst (nlargest 4 (tradeable_scores (\<lambda>s. True) tied_scores)))
   \<and> ''NVDA'' \<in> set (map fst (nsmallest 4 (tradeable_scores (\<lambda>s. True) tied_scores)))
   \<and> (\<exists>target. build_targets Initialize (\<lambda>s. True) tied_scores 2 1 = Inr target
        \<and> map_of target ''NVDA'' = Some (- (12 / 100)) \<and> int (length target) < 2 * 4)"
proof -
  have ts: "tradeable_scores (\<lambda>s. True) tied_scores = tied_scores"
    by (simp add: tradeable_scores_def)
  have f: "2 * min_names_each_side Initialize \<le> int (length (tradeable_scores (\<lambda>s. True) tied_scores))"
    unfolding ts by (simp add: tied_scores_def Initialize_def)
  have k: "selection_size Initialize 2 (int (length (tradeable_scores (\<lambda>s. True) tied_scores))) = 4"
    unfolding ts by (simp add: tied_scores_def selection_size_def int_of_fraction_def Initialize_def)
  have l: "map fst (nlargest 4 tied_scores) = [''NVDA'', ''AMD'', ''AVGO'', ''QCOM'']"
    by (simp add: nlargest_def tied_scores_def)
  have s: "map fst (nsmallest 4 tied_scores) = [''NVDA'', ''AMD'', ''AVGO'', ''QCOM'']"
    by (simp add: nsmallest_def tied_scores_def)
  have c: "clip (short_pre_cap 1 [''NVDA'', ''AMD'', ''AVGO'', ''QCOM''])
             (- max_weight_per_name Initialize) 0 = - (12 / 100)"
    by (simp add: clip_def short_pre_cap_def Initialize_def)
  have i1: "''NVDA'' \<in> set (map fst (nlargest
           (selection_size Initialize 2 (int (length (tradeable_scores (\<lambda>s. True) tied_scores))))
           (tradeable_scores (\<lambda>s. True) tied_scores)))"
    unfolding k unfolding ts l by simp
  have i2: "''NVDA'' \<in> set (map fst (nsmallest
           (selection_size Initialize 2 (int (length (tradeable_scores (\<lambda>s. True) tied_scores))))
           (tradeable_scores (\<lambda>s. True) tied_scores)))"
    unfolding k unfolding ts s by simp
  have r: "(2::int) = 2 \<or> (2::int) = 1" by simp
  from overlap_receives_short_weight [OF r f i1 i2, of 1, unfolded k, unfolded ts s c]
  show ?thesis using f k l s ts by simp
qed

subsection \<open>C2: a cycle that aborts for lack of history\<close>

text \<open>
  C2 as stated: after a cycle that aborts on an empty history or a failed reshape, the
  last-processed-date guard has the value it had before the cycle. It fails:
  \<open>Rebalance\<close> sets \<open>_last_rebalance_date\<close> to the current date before it asks for
  the history, so after the abort the guard holds the date of the aborted cycle.
\<close>

theorem abort_sets_guard_counterexample:
  "last_rebalance_date (state_after (Rebalance Initialize (no_history_env 5)
       \<lparr>last_rebalance_date = None\<rparr>)) = Some 5
   \<and> last_rebalance_date (state_after (Rebalance Initialize (bad_history_env 5)
       \<lparr>last_rebalance_date = None\<rparr>)) = Some 5
   \<and> state_after (Rebalance Initialize (no_history_env 5) \<lparr>last_rebalance_date = None\<rparr>)
       \<noteq> \<lparr>last_rebalance_date = None\<rparr>
   \<and> state_after (Rebalance Initialize (bad_history_env 5) \<lparr>last_rebalance_date = None\<rparr>)
       \<noteq> \<lparr>last_rebalance_date = None\<rparr>"
  by (simp add: Rebalance_def no_history_env_def bad_history_env_def flat_env_def Let_def)

text \<open>
  C2, amended: a cycle that aborts on an empty history or a failed reshape sends no order
  (no liquidation, no holdings change), raises nothing and emits exactly one log record
  naming the failure; the last-processed-date guard is then the current date.
\<close>

theorem abort_sends_no_order:
  assumes "\<not> is_warming_up env"
    and "last_rebalance_date st \<noteq> Some (time_date env)"
    and "fetched env = HistEmpty \<or> fetched env = HistReshapeFails e"
  shows "actions (Rebalance cfg env st)
           = [Log (if fetched env = HistEmpty then NoHistory else ReshapeFailed e)]
     \<and> raised (Rebalance cfg env st) = None
     \<and> state_after (Rebalance cfg env st) = st\<lparr>last_rebalance_date := Some (time_date env)\<rparr>"
  using assms by (auto simp: Rebalance_def Let_def)

theorem abort_sends_no_order_witness:
  "\<not> is_warming_up (no_history_env 5)
   \<and> last_rebalance_date \<lparr>last_rebalance_date = Some 4\<rparr> \<noteq> Some (time_date (no_history_env 5))
   \<and> fetched (no_history_env 5) = HistEmpty
   \<and> actions (Rebalance Initialize (no_history_env 5) \<lparr>last_rebalance_date = Some 4\<rparr>)
       = [Log NoHistory]
   \<and> raised (Rebalance Initialize (no_history_env 5) \<lparr>last_rebalance_date = Some 4\<rparr>) = None
   \<and> state_after (Rebalance Initialize (no_history_env 5) \<lparr>last_rebalance_date = Some 4\<rparr>)
       = \<lparr>last_rebalance_date = Some 5\<rparr>"
proof -
  have a: "\<not> is_warming_up (no_history_env 5)"
    by (simp add: no_history_env_def flat_env_def)
  have b: "last_rebalance_date \<lparr>last_rebalance_date = Some 4\<rparr>
           \<noteq> Some (time_date (no_history_env 5))"
    by (simp add: no_history_env_def flat_env_def)
  have c: "fetched (no_history_env 5) = HistEmpty" by (simp add: no_history_env_def)
  have c': "fetched (no_history_env 5) = HistEmpty
            \<or> fetched (no_history_env 5) = HistReshapeFails ''''" using c by simp
  have t: "time_date (no_history_env 5) = 5" by (simp add: no_history_env_def flat_env_def)
  from abort_sends_no_order [OF a b c', of Initialize] a b c t show ?thesis by simp
qed

subsection \<open>C5: the regime classifier\<close>

text \<open>
  C5 as stated: for every price table the classifier returns an integer in
  \<open>{0, 1, 2, 3}\<close>, never an error. It fails on a table that has the four reference
  columns and no row: \<open>.iloc[-1]\<close> raises IndexError. (\<open>Rebalance\<close> never passes such a
  table: it returns before, when the history is empty.)
\<close>

theorem regime_score_no_rows_counterexample:
  "compute_regime_score Initialize no_rows_table = Inl IndexError"
  by (simp add: compute_regime_score_def no_rows_table_def Initialize_def column_def
      rolling_mean_def rolling_def iloc_last_def bind_err_def)

text \<open>
  C5, amended: whenever one of the four reference columns is absent the classifier
  returns exactly 1, without computing anything; on a table with the four columns and at
  least one row it returns the sum of three indicators, each 0 or 1, hence an integer in
  \<open>{0, 1, 2, 3}\<close>, and an indicator that cannot be computed (no full window of finite
  prices, a ratio series no longer than the window, which includes the all-NaN ratio)
  is 0, not an error.
\<close>

theorem regime_score_range:
  "((\<exists>sym \<in> set [soxx cfg, spy cfg, ief cfg, shy cfg]. sym \<notin> set (columns close))
      \<longrightarrow> compute_regime_score cfg close = Inr 1)
   \<and> (\<not> (\<exists>sym \<in> set [soxx cfg, spy cfg, ief cfg, shy cfg]. sym \<notin> set (columns close))
        \<and> rows close \<noteq> []
      \<longrightarrow> (\<exists>c1 c2 c3. compute_regime_score cfg close = Inr (c1 + c2 + c3)
             \<and> c1 \<in> {0, 1} \<and> c2 \<in> {0, 1} \<and> c3 \<in> {0, 1}
             \<and> 0 \<le> c1 + c2 + c3 \<and> c1 + c2 + c3 \<le> 3
             \<and> (finite_window (regime_ma cfg) (column close (soxx cfg)) = None \<longrightarrow> c1 = 0)
             \<and> (length (safe_ratio (column close (soxx cfg)) (column close (spy cfg)))
                   \<le> regime_ma cfg \<longrightarrow> c2 = 0)
             \<and> (length (safe_ratio (column close (ief cfg)) (column close (shy cfg)))
                   \<le> regime_ma cfg \<longrightarrow> c3 = 0)))"
proof (intro conjI impI)
  assume "\<exists>sym \<in> set [soxx cfg, spy cfg, ief cfg, shy cfg]. sym \<notin> set (columns close)"
  then show "compute_regime_score cfg close = Inr 1"
    unfolding compute_regime_score_def by (simp only: if_True)
next
  assume a: "\<not> (\<exists>sym \<in> set [soxx cfg, spy cfg, ief cfg, shy cfg]. sym \<notin> set (columns close))
             \<and> rows close \<noteq> []"
  let ?rs = "safe_ratio (column close (soxx cfg)) (column close (spy cfg))"
  let ?cv = "safe_ratio (column close (ief cfg)) (column close (shy cfg))"
  let ?ma = "case finite_window (regime_ma cfg) (column close (soxx cfg)) of
               None \<Rightarrow> NaN | Some vs \<Rightarrow> mean_of vs"
  define c1 :: int where "c1 = (if fgt (last (column close (soxx cfg))) ?ma then 1 else 0)"
  obtain c2 where c2: "ratio_indicator (regime_ma cfg) ?rs = Inr c2" "c2 = 0 \<or> c2 = 1"
    using ratio_indicator_total [of "regime_ma cfg" ?rs] by auto
  obtain c3 where c3: "ratio_indicator (regime_ma cfg) ?cv = Inr c3" "c3 = 0 \<or> c3 = 1"
    using ratio_indicator_total [of "regime_ma cfg" ?cv] by auto
  have r: "compute_regime_score cfg close = Inr (c1 + c2 + c3)"
    using regime_score_present [of cfg close] a c2(1) c3(1)
    by (simp add: bind_err_def c1_def)
  have b1: "c1 \<in> {0, 1}" by (simp add: c1_def)
  have b2: "c2 \<in> {0, 1}" using c2(2) by simp
  have b3: "c3 \<in> {0, 1}" using c3(2) by simp
  have z1: "finite_window (regime_ma cfg) (column close (soxx cfg)) = None \<longrightarrow> c1 = 0"
    by (simp add: c1_def fgt_NaN_right)
  have z2: "length ?rs \<le> regime_ma cfg \<longrightarrow> c2 = 0"
    using ratio_indicator_short [of ?rs "regime_ma cfg"] c2(1) by auto
  have z3: "length ?cv \<le> regime_ma cfg \<longrightarrow> c3 = 0"
    using ratio_indicator_short [of ?cv "regime_ma cfg"] c3(1) by auto
  have lo: "0 \<le> c1 + c2 + c3" using b1 b2 b3 by auto
  have hi: "c1 + c2 + c3 \<le> 3" using b1 b2 b3 by auto
  from r b1 b2 b3 lo hi z1 z2 z3
  show "\<exists>c1 c2 c3. compute_regime_score cfg close = Inr (c1 + c2 + c3)
             \<and> c1 \<in> {0, 1} \<and> c2 \<in> {0, 1} \<and> c3 \<in> {0, 1}
             \<and> 0 \<le> c1 + c2 + c3 \<and> c1 + c2 + c3 \<le> 3
             \<and> (finite_window (regime_ma cfg) (column close (soxx cfg)) = None \<longrightarrow> c1 = 0)
             \<and> (length ?rs \<le> regime_ma cfg \<longrightarrow> c2 = 0)
             \<and> (length ?cv \<le> regime_ma cfg \<longrightarrow> c3 = 0)"
    by (intro exI [of _ c1] exI [of _ c2] exI [of _ c3] conjI) assumption+
qed

theorem regime_score_range_witness:
  "(\<exists>sym \<in> set [soxx Initialize, spy Initialize, ief Initialize, shy Initialize].
       sym \<notin> set (columns no_shy_table))
   \<and> compute_regime_score Initialize no_shy_table = Inr 1
   \<and> \<not> (\<exists>sym \<in> set [soxx Initialize, spy Initialize, ief Initialize, shy Initialize].
       sym \<notin> set (columns flat_table))
   \<and> rows flat_table \<noteq> []
   \<and> finite_window (regime_ma Initialize) (column flat_table (soxx Initialize)) = None
   \<and> length (safe_ratio (column flat_table (soxx Initialize)) (column flat_table (spy Initialize)))
        \<le> regime_ma Initialize
   \<and> length (safe_ratio (column flat_table (ief Initialize)) (column flat_table (shy Initialize)))
        \<le> regime_ma Initialize
   \<and> compute_regime_score Initialize flat_table = Inr 0"
proof -
  have h1: "\<exists>sym \<in> set [soxx Initialize, spy Initialize, ief Initialize, shy Initialize].
              sym \<notin> set (columns no_shy_table)"
    by (simp add: Initialize_def no_shy_table_def)
  have h2: "\<not> (\<exists>sym \<in> set [soxx Initialize, spy Initialize, ief Initialize, shy Initialize].
              sym \<notin> set (columns flat_table))"
    by (simp add: Initialize_def flat_table_def)
  have h3: "rows flat_table \<noteq> []" by (simp add: flat_table_def)
  have w: "finite_window (regime_ma Initialize) (column flat_table (soxx Initialize)) = None"
    by (simp add: flat_column finite_window_def Initialize_def)
  have r: "safe_ratio [Fin 100, Fin 100] [Fin 100, Fin 100] = [Fin 1, Fin 1]"
    by (simp add: safe_ratio_def to_float_in_range)
  have l2: "length (safe_ratio (column flat_table (soxx Initialize))
              (column flat_table (spy Initialize))) \<le> regime_ma Initialize"
    unfolding flat_column r by (simp add: Initialize_def)
  have l3: "length (safe_ratio (column flat_table (ief Initialize))
              (column flat_table (shy Initialize))) \<le> regime_ma Initialize"
    unfolding flat_column r by (simp add: Initialize_def)
  note t1 = regime_score_range [of Initialize no_shy_table, THEN conjunct1, rule_format, OF h1]
  note t2 = regime_score_range [of Initialize flat_table, THEN conjunct2, rule_format,
      OF conjI [OF h2 h3]]
  from t2 obtain c1 c2 c3 where
    e: "compute_regime_score Initialize flat_table = Inr (c1 + c2 + c3)"
    and z1: "finite_window (regime_ma Initialize) (column flat_table (soxx Initialize)) = None
             \<longrightarrow> c1 = 0"
    and z2: "length (safe_ratio (column flat_table (soxx Initialize))
               (column flat_table (spy Initialize))) \<le> regime_ma Initialize \<longrightarrow> c2 = 0"
    and z3: "length (safe_ratio (column flat_table (ief Initialize))
               (column flat_table (shy Initialize))) \<le> regime_ma Initialize \<longrightarrow> c3 = 0"
    by (elim exE conjE) (erule (3) that)
  from e z1 z2 z3 w l2 l3 have "compute_regime_score Initialize flat_table = Inr 0" by simp
  with t1 h1 h2 h3 w l2 l3 show ?thesis by blast
qed

subsection \<open>C7: the volatility targeter\<close>

text \<open>
  C7 as stated: a latest rolling standard deviation that is undefined, non-finite or
  below \<open>1e-8\<close> gives exactly the neutral scale 1. It fails for \<open>+inf\<close>: line 136
  tests \<open>np.isnan(vol) or vol < 1e-8\<close>, which \<open>+inf\<close> passes, and the scale is then
  \<open>clip(T / inf, min_gross, max_gross) = min_gross\<close>. A jump in the closes from 1 to
  \<open>1e160\<close> makes the rolling standard deviation overflow to \<open>+inf\<close>, and the targeter
  returns 0.20.
\<close>

theorem vol_target_scale_infinite_counterexample:
  "latest_vol Initialize spike_prices = Inr PInf
   \<and> \<not> is_fin PInf
   \<and> vol_target_scale Initialize spike_prices = Inr (20 / 100)
   \<and> vol_target_scale Initialize spike_prices \<noteq> Inr 1"
proof -
  have v: "vol_target_scale Initialize spike_prices = Inr (scale_of_vol Initialize PInf)"
    by (simp add: vol_target_scale_def spike_vol bind_err_def)
  have s: "scale_of_vol Initialize PInf = 20 / 100"
    by (simp add: scale_of_vol_def flt_less_def annualized_infinite clip_def Initialize_def)
  show ?thesis by (simp add: spike_vol v s)
qed

text \<open>
  C7, amended: the latest rolling standard deviation of the daily returns is NaN,
  \<open>+inf\<close> or a finite non-negative number. When it is NaN or below \<open>1e-8\<close> the targeter
  returns exactly 1, through the degenerate branch; when it is \<open>+inf\<close> it returns
  \<open>clip(0, min_gross, max_gross)\<close>; otherwise it returns
  \<open>clip(T / max(vol * sqrt 252, 1e-3), min_gross, max_gross)\<close>, so that an annualized
  volatility equal to the target \<open>T\<close> (at least \<open>1e-3\<close>, as the 0.10 of \<open>Initialize\<close>
  is) gives the scale 1 before the clip. Outside the degenerate branch the result lies
  in \<open>[min_gross, max_gross]\<close>.
\<close>

theorem vol_target_scale_branches:
  assumes "latest_vol cfg soxx_close = Inr vol"
  shows "(vol = NaN \<or> vol = PInf \<or> (\<exists>v. vol = Fin v \<and> 0 \<le> v))
     \<and> (vol = NaN \<or> flt_less vol (Fin (1 / 10 ^ 8))
          \<longrightarrow> vol_target_scale cfg soxx_close = Inr 1)
     \<and> (vol = PInf
          \<longrightarrow> vol_target_scale cfg soxx_close = Inr (clip 0 (min_gross cfg) (max_gross cfg)))
     \<and> (\<forall>v. vol = Fin v \<and> 1 / 10 ^ 8 \<le> v
          \<longrightarrow> vol_target_scale cfg soxx_close
                = Inr (clip (target_annual_vol cfg / max (v * sqrt 252) (1 / 10 ^ 3))
                         (min_gross cfg) (max_gross cfg))
              \<and> (v * sqrt 252 = target_annual_vol cfg \<and> 1 / 10 ^ 3 \<le> target_annual_vol cfg
                   \<longrightarrow> pre_clip_scale cfg (v * sqrt 252) = 1
                       \<and> vol_target_scale cfg soxx_close
                           = Inr (clip 1 (min_gross cfg) (max_gross cfg))))
     \<and> (\<not> (vol = NaN \<or> flt_less vol (Fin (1 / 10 ^ 8))) \<and> min_gross cfg \<le> max_gross cfg
          \<longrightarrow> (\<exists>s. vol_target_scale cfg soxx_close = Inr s
                 \<and> min_gross cfg \<le> s \<and> s \<le> max_gross cfg))"
proof -
  note vs = latest_vol_value [OF assms]
  have r: "vol_target_scale cfg soxx_close = Inr (scale_of_vol cfg vol)"
    using assms by (simp add: vol_target_scale_def bind_err_def)
  have c1: "vol = NaN \<or> vol = PInf \<or> (\<exists>v. vol = Fin v \<and> 0 \<le> v)" using vs by blast
  have c2: "vol = NaN \<or> flt_less vol (Fin (1 / 10 ^ 8))
            \<longrightarrow> vol_target_scale cfg soxx_close = Inr 1"
    by (simp add: r scale_of_vol_def)
  have c3: "vol = PInf
            \<longrightarrow> vol_target_scale cfg soxx_close = Inr (clip 0 (min_gross cfg) (max_gross cfg))"
    by (simp add: r scale_of_vol_def flt_less_def annualized_infinite)
  have fin: "scale_of_vol cfg (Fin v)
             = clip (pre_clip_scale cfg (v * sqrt 252)) (min_gross cfg) (max_gross cfg)"
    if "vol = Fin v" "1 / 10 ^ 8 \<le> v" for v
  proof -
    from vs that(1) have "0 \<le> v" "v\<^sup>2 \<le> float_max" by auto
    then have "annualized (Fin v) = Fin (v * sqrt 252)" by (rule annualized_finite)
    with that(2) show ?thesis by (simp add: scale_of_vol_def flt_less_def)
  qed
  have c4: "\<forall>v. vol = Fin v \<and> 1 / 10 ^ 8 \<le> v
          \<longrightarrow> vol_target_scale cfg soxx_close
                = Inr (clip (target_annual_vol cfg / max (v * sqrt 252) (1 / 10 ^ 3))
                         (min_gross cfg) (max_gross cfg))
              \<and> (v * sqrt 252 = target_annual_vol cfg \<and> 1 / 10 ^ 3 \<le> target_annual_vol cfg
                   \<longrightarrow> pre_clip_scale cfg (v * sqrt 252) = 1
                       \<and> vol_target_scale cfg soxx_close
                           = Inr (clip 1 (min_gross cfg) (max_gross cfg)))"
  proof (intro allI impI conjI)
    fix v assume a: "vol = Fin v \<and> 1 / 10 ^ 8 \<le> v"
    then have s: "vol_target_scale cfg soxx_close
          = Inr (clip (pre_clip_scale cfg (v * sqrt 252)) (min_gross cfg) (max_gross cfg))"
      using r fin [of v] by simp
    then show "vol_target_scale cfg soxx_close
                = Inr (clip (target_annual_vol cfg / max (v * sqrt 252) (1 / 10 ^ 3))
                         (min_gross cfg) (max_gross cfg))"
      by (simp add: pre_clip_scale_def)
    assume t: "v * sqrt 252 = target_annual_vol cfg \<and> 1 / 10 ^ 3 \<le> target_annual_vol cfg"
    then show p: "pre_clip_scale cfg (v * sqrt 252) = 1"
      by (simp add: pre_clip_scale_def max_def)
    from s p show "vol_target_scale cfg soxx_close
                   = Inr (clip 1 (min_gross cfg) (max_gross cfg))"
      by simp
  qed
  have c5: "\<not> (vol = NaN \<or> flt_less vol (Fin (1 / 10 ^ 8))) \<and> min_gross cfg \<le> max_gross cfg
          \<longrightarrow> (\<exists>s. vol_target_scale cfg soxx_close = Inr s
                 \<and> min_gross cfg \<le> s \<and> s \<le> max_gross cfg)"
  proof
    assume a: "\<not> (vol = NaN \<or> flt_less vol (Fin (1 / 10 ^ 8))) \<and> min_gross cfg \<le> max_gross cfg"
    then have "\<exists>x. scale_of_vol cfg vol = clip x (min_gross cfg) (max_gross cfg)"
      by (auto simp: scale_of_vol_def split: flt.splits)
    then obtain x where "scale_of_vol cfg vol = clip x (min_gross cfg) (max_gross cfg)" ..
    with a clip_in_range [of "min_gross cfg" "max_gross cfg" x] r
    show "\<exists>s. vol_target_scale cfg soxx_close = Inr s
                 \<and> min_gross cfg \<le> s \<and> s \<le> max_gross cfg"
      by simp
  qed
  from c1 c2 c3 c4 c5 show ?thesis by (intro conjI)
qed

theorem vol_target_scale_branches_witness:
  "latest_vol Initialize constant_prices = Inr (Fin 0)
   \<and> vol_target_scale Initialize constant_prices = Inr 1
   \<and> latest_vol Initialize on_target_prices = Inr (Fin (sqrt (1 / 25200)))
   \<and> sqrt (1 / 25200) * sqrt 252 = target_annual_vol Initialize
   \<and> pre_clip_scale Initialize (sqrt (1 / 25200) * sqrt 252) = 1
   \<and> vol_target_scale Initialize on_target_prices = Inr 1
   \<and> latest_vol Initialize high_vol_prices = Inr (Fin (1 / 5))
   \<and> vol_target_scale Initialize high_vol_prices = Inr (min_gross Initialize)
   \<and> latest_vol Initialize low_vol_prices = Inr (Fin (1 / 500))
   \<and> vol_target_scale Initialize low_vol_prices = Inr (max_gross Initialize)
   \<and> latest_vol Initialize spike_prices = Inr PInf
   \<and> vol_target_scale Initialize spike_prices = Inr (min_gross Initialize)"
proof -
  have d: "Fin 0 = NaN \<or> flt_less (Fin 0) (Fin (1 / 10 ^ 8))" by (simp add: flt_less_def)
  have t: "sqrt (1 / 25200) * sqrt 252 = target_annual_vol Initialize
           \<and> 1 / 10 ^ 3 \<le> target_annual_vol Initialize"
    using on_target_annualized by (simp add: Initialize_def)
  have c1: "clip 1 (min_gross Initialize) (max_gross Initialize) = 1"
    by (simp add: clip_def Initialize_def)
  have c0: "clip 0 (min_gross Initialize) (max_gross Initialize) = min_gross Initialize"
    by (simp add: clip_def Initialize_def)
  have hv: "(1::real) / 10 ^ 8 \<le> 1 / 5" by simp
  have lv: "(1::real) / 10 ^ 8 \<le> 1 / 500" by simp
  note a = vol_target_scale_branches [OF constant_vol, THEN conjunct2, THEN conjunct1,
      rule_format, OF d]
  note b = vol_target_scale_branches [OF on_target_vol, THEN conjunct2, THEN conjunct2,
      THEN conjunct2, THEN conjunct1, rule_format, OF conjI [OF refl on_target_above_epsilon],
      THEN conjunct2, rule_format, OF t]
  note h = vol_target_scale_branches [OF high_vol, THEN conjunct2, THEN conjunct2,
      THEN conjunct2, THEN conjunct1, rule_format, OF conjI [OF refl hv], THEN conjunct1]
  note l = vol_target_scale_branches [OF low_vol, THEN conjunct2, THEN conjunct2,
      THEN conjunct2, THEN conjunct1, rule_format, OF conjI [OF refl lv], THEN conjunct1]
  note s = vol_target_scale_branches [OF spike_vol, THEN conjunct2, THEN conjunct2,
      THEN conjunct1, rule_format, OF refl]
  from a b [unfolded c1] h [unfolded high_vol_clipped] l [unfolded low_vol_clipped]
    s [unfolded c0] t constant_vol on_target_vol high_vol low_vol spike_vol
  show ?thesis by (intro conjI) simp_all
qed

subsection \<open>C8: the pipeline is a function of its inputs\<close>

text \<open>
  C8: two cycles that run on the same history, with the same tradability of the basket
  and the same holdings of the portfolio keys, compute the same regime, gross budget and
  target weights (same instruments, same signed weights) and ask for the same actions,
  whatever their dates, the values of the guard, the other securities and the other
  holdings.
\<close>

theorem rebalance_targets_deterministic:
  assumes "fetched env1 = fetched env2"
    and "\<forall>s \<in> set (semis cfg).
           is_tradeable (securities env1) s = is_tradeable (securities env2) s"
    and "portfolio_keys env1 = portfolio_keys env2"
    and "\<forall>s \<in> set (portfolio_keys env1). invested env1 s = invested env2 s"
    and "\<not> is_warming_up env1" "\<not> is_warming_up env2"
    and "last_rebalance_date st1 \<noteq> Some (time_date env1)"
    and "last_rebalance_date st2 \<noteq> Some (time_date env2)"
  shows "pipeline cfg (is_tradeable (securities env1)) close
         = pipeline cfg (is_tradeable (securities env2)) close
     \<and> actions (Rebalance cfg env1 st1) = actions (Rebalance cfg env2 st2)
     \<and> raised (Rebalance cfg env1 st1) = raised (Rebalance cfg env2 st2)"
proof -
  have p: "pipeline cfg (is_tradeable (securities env1)) c
           = pipeline cfg (is_tradeable (securities env2)) c" for c
    using assms(2) by (rule pipeline_cong)
  have a: "apply_targets env1 regime gross target = apply_targets env2 regime gross target"
    if "pipeline cfg (is_tradeable (securities env2)) c = Inr (regime, gross, target)"
    for c regime gross target
    using pipeline_keys [OF that] assms(2,3,4) by (intro apply_targets_cong) blast+
  show ?thesis
  proof (cases "fetched env2")
    case HistEmpty
    with assms p show ?thesis by (simp add: Rebalance_def Let_def)
  next
    case (HistReshapeFails e)
    with assms p show ?thesis by (simp add: Rebalance_def Let_def)
  next
    case (HistTable tbl)
    let ?c = "map_columns bfill (map_columns ffill tbl)"
    show ?thesis
    proof (cases "pipeline cfg (is_tradeable (securities env2)) ?c")
      case (Inl e)
      with HistTable assms p [of ?c] p [of close] show ?thesis
        by (simp add: Rebalance_def Let_def)
    next
      case (Inr res)
      obtain regime gross target where res: "res = (regime, gross, target)"
        by (cases res) auto
      from a [OF Inr [unfolded res]] Inr res HistTable assms p [of ?c] p [of close]
      show ?thesis by (simp add: Rebalance_def Let_def)
    qed
  qed
qed

theorem rebalance_targets_deterministic_witness:
  "fetched trend_env = fetched trend_env_later
   \<and> portfolio_keys trend_env = portfolio_keys trend_env_later
   \<and> securities trend_env \<noteq> securities trend_env_later
   \<and> invested trend_env \<noteq> invested trend_env_later
   \<and> time_date trend_env \<noteq> time_date trend_env_later
   \<and> \<not> is_warming_up trend_env \<and> \<not> is_warming_up trend_env_later
   \<and> last_rebalance_date \<lparr>last_rebalance_date = None\<rparr> \<noteq> Some (time_date trend_env)
   \<and> last_rebalance_date \<lparr>last_rebalance_date = Some 5\<rparr> \<noteq> Some (time_date trend_env_later)
   \<and> pipeline Initialize (is_tradeable (securities trend_env)) trend_table
       = Inr (0, 9 / 10, trend_targets)
   \<and> pipeline Initialize (is_tradeable (securities trend_env_later)) trend_table
       = Inr (0, 9 / 10, trend_targets)
   \<and> length trend_targets = 8
   \<and> actions (Rebalance Initialize trend_env \<lparr>last_rebalance_date = None\<rparr>)
       = [Liquidate ''NVDA'',
          SetHoldings ''AMD'' (- (9 / 80)), SetHoldings ''QCOM'' (- (9 / 80)),
          SetHoldings ''INTC'' (- (9 / 80)), SetHoldings ''ADI'' (- (9 / 80)),
          SetHoldings ''ON'' (- (9 / 80)), SetHoldings ''MCHP'' (- (9 / 80)),
          SetHoldings ''NXPI'' (- (9 / 80)), SetHoldings ''MRVL'' (- (9 / 80)),
          Log (RebalanceDone 0 (9 / 10) 8)]
   \<and> actions (Rebalance Initialize trend_env_later \<lparr>last_rebalance_date = Some 5\<rparr>)
       = [Liquidate ''NVDA'',
          SetHoldings ''AMD'' (- (9 / 80)), SetHoldings ''QCOM'' (- (9 / 80)),
          SetHoldings ''INTC'' (- (9 / 80)), SetHoldings ''ADI'' (- (9 / 80)),
          SetHoldings ''ON'' (- (9 / 80)), SetHoldings ''MCHP'' (- (9 / 80)),
          SetHoldings ''NXPI'' (- (9 / 80)), SetHoldings ''MRVL'' (- (9 / 80)),
          Log (RebalanceDone 0 (9 / 10) 8)]"
proof -
  have h1: "fetched trend_env = fetched trend_env_later"
    by (simp add: trend_env_def trend_env_later_def)
  have h2: "\<forall>s \<in> set (semis Initialize).
              is_tradeable (securities trend_env) s = is_tradeable (securities trend_env_later) s"
    by (simp add: trend_env_tradeable trend_env_later_tradeable)
  have h3: "portfolio_keys trend_env = portfolio_keys trend_env_later"
    by (simp add: trend_env_def trend_env_later_def)
  have h4: "\<forall>s \<in> set (portfolio_keys trend_env). invested trend_env s = invested trend_env_later s"
    by (simp add: trend_env_def trend_env_later_def)
  have h5: "\<not> is_warming_up trend_env" by (simp add: trend_env_def)
  have h6: "\<not> is_warming_up trend_env_later" by (simp add: trend_env_later_def)
  have h7: "last_rebalance_date \<lparr>last_rebalance_date = None\<rparr> \<noteq> Some (time_date trend_env)"
    by simp
  have h8: "last_rebalance_date \<lparr>last_rebalance_date = Some 5\<rparr>
            \<noteq> Some (time_date trend_env_later)"
    by (simp add: trend_env_later_def)
  have d1: "securities trend_env \<noteq> securities trend_env_later"
  proof
    assume "securities trend_env = securities trend_env_later"
    then have "securities trend_env ''SPY'' = securities trend_env_later ''SPY''" by simp
    then show False by (simp add: trend_env_def trend_env_later_def)
  qed
  have d2: "invested trend_env \<noteq> invested trend_env_later"
  proof
    assume "invested trend_env = invested trend_env_later"
    then have "invested trend_env ''SPY'' = invested trend_env_later ''SPY''" by simp
    then show False by (simp add: trend_env_def trend_env_later_def)
  qed
  have d3: "time_date trend_env \<noteq> time_date trend_env_later"
    by (simp add: trend_env_def trend_env_later_def)
  have p: "pipeline Initialize (is_tradeable (securities trend_env)) trend_table
           = Inr (0, 9 / 10, trend_targets)"
    by (rule trend_pipeline) (simp add: trend_env_tradeable)
  have n: "length trend_targets = 8" by (simp add: trend_targets_def)
  note t = rebalance_targets_deterministic [OF h1 h2 h3 h4 h5 h6 h7 h8,
      where close = trend_table]
  from t p have p2: "pipeline Initialize (is_tradeable (securities trend_env_later)) trend_table
                     = Inr (0, 9 / 10, trend_targets)" by simp
  from t trend_actions
  have a2: "actions (Rebalance Initialize trend_env_later \<lparr>last_rebalance_date = Some 5\<rparr>)
       = [Liquidate ''NVDA'',
          SetHoldings ''AMD'' (- (9 / 80)), SetHoldings ''QCOM'' (- (9 / 80)),
          SetHoldings ''INTC'' (- (9 / 80)), SetHoldings ''ADI'' (- (9 / 80)),
          SetHoldings ''ON'' (- (9 / 80)), SetHoldings ''MCHP'' (- (9 / 80)),
          SetHoldings ''NXPI'' (- (9 / 80)), SetHoldings ''MRVL'' (- (9 / 80)),
          Log (RebalanceDone 0 (9 / 10) 8)]" by simp
  from h1 h3 d1 d2 d3 h5 h6 h7 h8 p p2 n trend_actions a2 show ?thesis by (intro conjI)
qed

end
